theory Spec2Isabelle
  imports Complex_Main "HOL-Library.Char_ord" "HOL-Library.Sublist" "HOL-Library.Log_Nat"
begin

section \<open>Python primitives used by the scraper\<close>

text \<open>
  Python \<^verbatim>\<open>str\<close> values are modelled as \<^typ>\<open>string\<close>, one \<^typ>\<open>char\<close> per code point,
  for text in the Latin-1 range (code points 0 to 255). Exceptions are values of
  \<open>error + 'a\<close>, \<open>Inl\<close> carrying the exception.
\<close>

datatype error =
    ValueError
  | TypeError
  | OverflowError
  | KeyError
  | IndexError
  | AttributeError
  | RegexError
  | WebDriverError

definition in_range :: "char \<Rightarrow> char \<Rightarrow> char \<Rightarrow> bool" where
  "in_range lo hi c = (lo \<le> c \<and> c \<le> hi)"

definition is_digit :: "char \<Rightarrow> bool" where
  "is_digit c = in_range (CHR ''0'') (CHR ''9'') c"

text \<open>\<^verbatim>\<open>str.isspace\<close> on the Latin-1 range: what \<^verbatim>\<open>strip()\<close> and \<^verbatim>\<open>split()\<close> remove.\<close>

definition is_space :: "char \<Rightarrow> bool" where
  "is_space c = (c \<in> set [CHR 0x09, CHR 0x0A, CHR 0x0B, CHR 0x0C, CHR 0x0D, CHR 0x1C,
                            CHR 0x1D, CHR 0x1E, CHR 0x1F, CHR 0x20, CHR 0x85, CHR 0xA0])"

definition py_strip :: "string \<Rightarrow> string" where
  "py_strip s = rev (dropWhile is_space (rev (dropWhile is_space s)))"

text \<open>\<^verbatim>\<open>s.split()\<close>: the maximal runs of non-whitespace characters, in order.\<close>

fun py_split_aux :: "string \<Rightarrow> string \<Rightarrow> string list" where
  "py_split_aux w [] = (if w = [] then [] else [rev w])"
| "py_split_aux w (c # cs) =
     (if is_space c then (if w = [] then py_split_aux [] cs else rev w # py_split_aux [] cs)
      else py_split_aux (c # w) cs)"

definition py_split :: "string \<Rightarrow> string list" where
  "py_split s = py_split_aux [] s"

text \<open>
  The cased letters of Latin-1: \<open>A\<close> to \<open>Z\<close> and the capitals U+00C0 to U+00DE (without the
  multiplication sign U+00D7), each 32 below its small letter.
\<close>

definition capitals :: string where
  "capitals = ''ABCDEFGHIJKLMNOPQRSTUVWXYZ'' @
     [CHR 0xC0, CHR 0xC1, CHR 0xC2, CHR 0xC3, CHR 0xC4, CHR 0xC5, CHR 0xC6, CHR 0xC7,
      CHR 0xC8, CHR 0xC9, CHR 0xCA, CHR 0xCB, CHR 0xCC, CHR 0xCD, CHR 0xCE, CHR 0xCF,
      CHR 0xD0, CHR 0xD1, CHR 0xD2, CHR 0xD3, CHR 0xD4, CHR 0xD5, CHR 0xD6,
      CHR 0xD8, CHR 0xD9, CHR 0xDA, CHR 0xDB, CHR 0xDC, CHR 0xDD, CHR 0xDE]"

definition smalls :: string where
  "smalls = ''abcdefghijklmnopqrstuvwxyz'' @
     [CHR 0xE0, CHR 0xE1, CHR 0xE2, CHR 0xE3, CHR 0xE4, CHR 0xE5, CHR 0xE6, CHR 0xE7,
      CHR 0xE8, CHR 0xE9, CHR 0xEA, CHR 0xEB, CHR 0xEC, CHR 0xED, CHR 0xEE, CHR 0xEF,
      CHR 0xF0, CHR 0xF1, CHR 0xF2, CHR 0xF3, CHR 0xF4, CHR 0xF5, CHR 0xF6,
      CHR 0xF8, CHR 0xF9, CHR 0xFA, CHR 0xFB, CHR 0xFC, CHR 0xFD, CHR 0xFE]"

text \<open>\<^verbatim>\<open>str.lower\<close>: every Latin-1 character has a Latin-1 small form.\<close>

definition lower_char :: "char \<Rightarrow> char" where
  "lower_char c = (case map_of (zip capitals smalls) c of Some l \<Rightarrow> l | None \<Rightarrow> c)"

definition py_lower :: "string \<Rightarrow> string" where
  "py_lower s = map lower_char s"

text \<open>
  \<^verbatim>\<open>str.upper\<close>: the sharp s (U+00DF) becomes the two letters \<open>SS\<close>, so the result can be
  longer than the text. The micro sign (U+00B5) and the y with diaeresis (U+00FF) have their
  capitals outside Latin-1; no other Latin-1 character shares those capitals, so the two
  stand for their own capitals here, which leaves every comparison of upper-cased Latin-1
  texts as in Python.
\<close>

definition upper_chars :: "char \<Rightarrow> string" where
  "upper_chars c =
     (if c = CHR 0xDF then ''SS''
      else (case map_of (zip smalls capitals) c of Some u \<Rightarrow> [u] | None \<Rightarrow> [c]))"

definition py_upper :: "string \<Rightarrow> string" where
  "py_upper s = concat (map upper_chars s)"

text \<open>\<^verbatim>\<open>s.find(sub)\<close>: the lowest index where \<open>sub\<close> starts; \<open>None\<close> stands for \<open>-1\<close>.\<close>

fun py_find :: "string \<Rightarrow> string \<Rightarrow> nat option" where
  "py_find [] sub = (if sub = [] then Some 0 else None)"
| "py_find (c # cs) sub =
     (if prefix sub (c # cs) then Some 0 else map_option Suc (py_find cs sub))"

text \<open>\<^verbatim>\<open>sub in s\<close> on strings.\<close>

definition py_in :: "string \<Rightarrow> string \<Rightarrow> bool" where
  "py_in sub s = (py_find s sub \<noteq> None)"

text \<open>The truth value of an optional string: \<^verbatim>\<open>None\<close> and the empty string are false.\<close>

definition truthy :: "string option \<Rightarrow> bool" where
  "truthy x = (case x of None \<Rightarrow> False | Some s \<Rightarrow> s \<noteq> [])"

text \<open>\<^verbatim>\<open>value.replace(',', '')\<close>.\<close>

definition remove_commas :: "string \<Rightarrow> string" where
  "remove_commas s = filter (\<lambda>c. c \<noteq> CHR '','') s"

subsection \<open>Number parsing: \<^verbatim>\<open>int(str)\<close> and \<^verbatim>\<open>float(str)\<close>\<close>

definition digit_val :: "char \<Rightarrow> int" where
  "digit_val c = of_char c - of_char (CHR ''0'')"

text \<open>
  A digit part: decimal digits, single underscores allowed between two digits. The flag
  says whether the previous character was a digit.
\<close>

fun dec_digits :: "bool \<Rightarrow> int \<Rightarrow> string \<Rightarrow> int option" where
  "dec_digits prev acc [] = (if prev then Some acc else None)"
| "dec_digits prev acc (c # cs) =
     (if is_digit c then dec_digits True (10 * acc + digit_val c) cs
      else if c = CHR ''_'' \<and> prev then dec_digits False acc cs
      else None)"

definition split_sign :: "string \<Rightarrow> bool \<times> string" where
  "split_sign s =
     (case s of
        c # cs \<Rightarrow> if c = CHR ''-'' then (True, cs) else if c = CHR ''+'' then (False, cs)
                  else (False, s)
      | [] \<Rightarrow> (False, s))"

text \<open>
  The whitespace \<^verbatim>\<open>int\<close> and \<^verbatim>\<open>float\<close> skip around a number: the ASCII whitespace of C
  (tab to carriage return, space) and the Latin-1 spaces U+0085 and U+00A0, which they first
  turn into spaces. The separators U+001C to U+001F are whitespace for \<^verbatim>\<open>str.strip\<close> but not
  here.
\<close>

definition is_num_space :: "char \<Rightarrow> bool" where
  "is_num_space c =
     (c \<in> set [CHR 0x09, CHR 0x0A, CHR 0x0B, CHR 0x0C, CHR 0x0D, CHR 0x20, CHR 0x85, CHR 0xA0])"

definition num_strip :: "string \<Rightarrow> string" where
  "num_strip s = rev (dropWhile is_num_space (rev (dropWhile is_num_space s)))"

definition count_digits :: "string \<Rightarrow> nat" where
  "count_digits s = length (filter is_digit s)"

text \<open>
  \<^verbatim>\<open>int(s)\<close> for a string: surrounding whitespace, an optional sign, a digit part. A digit
  part of more than 4300 digits (the default of \<^verbatim>\<open>sys.set_int_max_str_digits\<close>) is refused
  with \<^verbatim>\<open>ValueError\<close>, as is a malformed one.
\<close>

definition py_int :: "string \<Rightarrow> error + int" where
  "py_int s =
     (let (neg, body) = split_sign (num_strip s) in
      if 4300 < count_digits body then Inl ValueError
      else
        (case dec_digits False 0 body of
           None \<Rightarrow> Inl ValueError
         | Some n \<Rightarrow> Inr (if neg then - n else n)))"

text \<open>
  A Python float is a binary64 number: a finite value (kept as the rational it equals), an
  infinity or a NaN. The sign of an infinity and of zero plays no part in what follows.
\<close>

datatype pyfloat = Finite rat | Infinite | NaN

definition pow2 :: "int \<Rightarrow> rat" where
  "pow2 e = (if 0 \<le> e then 2 ^ nat e else 1 / 2 ^ nat (- e))"

text \<open>Rounding to the nearest integer, a tie going to the even one.\<close>

definition round_half_even :: "rat \<Rightarrow> int" where
  "round_half_even q =
     (let f = \<lfloor>q\<rfloor>; r = q - of_int f in
      if r < 1 / 2 then f else if 1 / 2 < r then f + 1 else if even f then f else f + 1)"

text \<open>
  For a positive \<open>q\<close>, the exponent \<open>e\<close> with \<open>pow2 e \<le> q < pow2 (e + 1)\<close>, found from the
  bit lengths of the numerator and the denominator.
\<close>

definition binade :: "rat \<Rightarrow> int" where
  "binade q =
     (let (a, b) = quotient_of q;
          e = bitlen a - bitlen b
      in if pow2 e \<le> q then e else e - 1)"

text \<open>
  Rounding a real result to binary64, to nearest with ties to even: 53 significant bits,
  the fixed spacing \<open>pow2 (- 1074)\<close> of the subnormal numbers, and an infinity when the
  rounded value reaches \<open>pow2 1024\<close>.
\<close>

definition round_binary64 :: "rat \<Rightarrow> pyfloat" where
  "round_binary64 q =
     (if q = 0 then Finite 0
      else
        (let m = \<bar>q\<bar>;
             e = max (binade m) (- 1022);
             ulp = pow2 (e - 52);
             v = of_int (round_half_even (m / ulp)) * ulp
         in if pow2 1024 \<le> v then Infinite else Finite (if q < 0 then - v else v)))"

text \<open>Split at the first character satisfying \<open>P\<close>; the second part is absent when none does.\<close>

definition split_first :: "(char \<Rightarrow> bool) \<Rightarrow> string \<Rightarrow> string \<times> string option" where
  "split_first P s =
     (takeWhile (\<lambda>c. \<not> P c) s,
      case dropWhile (\<lambda>c. \<not> P c) s of [] \<Rightarrow> None | _ # r \<Rightarrow> Some r)"

text \<open>The mantissa \<open>digits\<close>, \<open>digits.\<close>, \<open>.digits\<close> or \<open>digits.digits\<close>.\<close>

definition parse_mantissa :: "string \<Rightarrow> rat option" where
  "parse_mantissa m =
     (case split_first (\<lambda>c. c = CHR ''.'') m of
        (ip, None) \<Rightarrow> map_option of_int (dec_digits False 0 ip)
      | (ip, Some fp) \<Rightarrow>
          (if ip = [] then
             map_option (\<lambda>f. of_int f / 10 ^ count_digits fp) (dec_digits False 0 fp)
           else if fp = [] then map_option of_int (dec_digits False 0 ip)
           else
             (case (dec_digits False 0 ip, dec_digits False 0 fp) of
                (Some i, Some f) \<Rightarrow> Some (of_int i + of_int f / 10 ^ count_digits fp)
              | _ \<Rightarrow> None)))"

definition parse_exponent :: "string \<Rightarrow> int option" where
  "parse_exponent e =
     (let (neg, body) = split_sign e in
      map_option (\<lambda>n. if neg then - n else n) (dec_digits False 0 body))"

definition scale10 :: "rat \<Rightarrow> int \<Rightarrow> rat" where
  "scale10 q e = (if 0 \<le> e then q * 10 ^ nat e else q / 10 ^ nat (- e))"

text \<open>
  \<^verbatim>\<open>float(s)\<close> for a string: whitespace, sign, \<^verbatim>\<open>inf\<close>/\<^verbatim>\<open>infinity\<close>/\<^verbatim>\<open>nan\<close> in any letter
  case, or a mantissa with an optional exponent. A decimal literal gives the binary64 number
  nearest to it.
\<close>

definition py_float :: "string \<Rightarrow> error + pyfloat" where
  "py_float s =
     (let (neg, body) = split_sign (num_strip s); low = py_lower body in
      if low = ''inf'' \<or> low = ''infinity'' then Inr Infinite
      else if low = ''nan'' then Inr NaN
      else
        (case split_first (\<lambda>c. c = CHR ''e'' \<or> c = CHR ''E'') body of
           (m, None) \<Rightarrow>
             (case parse_mantissa m of
                None \<Rightarrow> Inl ValueError
              | Some q \<Rightarrow> Inr (round_binary64 (if neg then - q else q)))
         | (m, Some e) \<Rightarrow>
             (case (parse_mantissa m, parse_exponent e) of
                (Some q, Some k) \<Rightarrow> Inr (round_binary64 (scale10 (if neg then - q else q) k))
              | _ \<Rightarrow> Inl ValueError)))"

text \<open>
  \<^verbatim>\<open>int(x * 1000)\<close> for a float \<open>x\<close>: the product is rounded to binary64, then truncated
  toward zero; \<^verbatim>\<open>int\<close> raises on an infinity and on a NaN.
\<close>

definition trunc_rat :: "rat \<Rightarrow> int" where
  "trunc_rat q = (if 0 \<le> q then \<lfloor>q\<rfloor> else \<lceil>q\<rceil>)"

definition int_times_1000 :: "pyfloat \<Rightarrow> error + int" where
  "int_times_1000 x =
     (case x of
        Finite q \<Rightarrow>
          (case round_binary64 (q * 1000) of
             Finite p \<Rightarrow> Inr (trunc_rat p)
           | Infinite \<Rightarrow> Inl OverflowError
           | NaN \<Rightarrow> Inl ValueError)
      | Infinite \<Rightarrow> Inl OverflowError
      | NaN \<Rightarrow> Inl ValueError)"

section \<open>Field extraction engine\<close>

subsection \<open>Value transforms (\<^verbatim>\<open>BaseExtractor._apply_transform\<close>)\<close>

datatype pyval = VInt int | VStr string

definition apply_transform :: "string \<Rightarrow> string \<Rightarrow> error + pyval" where
  "apply_transform v transform =
     (if transform = ''multiply_1000'' then
        (case py_float v of Inl e \<Rightarrow> Inl e
         | Inr x \<Rightarrow> map_sum id VInt (int_times_1000 x))
      else if transform = ''handle_k_miles'' then
        (if py_in ''k'' (py_lower v) then
           (case py_float (remove_commas v) of Inl e \<Rightarrow> Inl e
            | Inr x \<Rightarrow> map_sum id VInt (int_times_1000 x))
         else map_sum id VInt (py_int (remove_commas v)))
      else if transform = ''remove_commas'' then map_sum id VInt (py_int (remove_commas v))
      else Inr (VStr v))"

subsection \<open>Regular expressions written in the source\<close>

text \<open>
  The two patterns the source spells out, \<^verbatim>\<open>^[A-HJ-NPR-Z0-9]{17}$\<close> and \<^verbatim>\<open>\d+-Speed\<close>, are
  sequences of the items below. \<open>re_here ic items at_start s\<close> says whether the items match
  at the head of the rest \<open>s\<close> of the subject (\<open>at_start\<close>: nothing of the subject came
  before); \<open>ic\<close> is the flag \<^verbatim>\<open>re.I\<close>. As in Python without \<^verbatim>\<open>re.MULTILINE\<close>, \<^verbatim>\<open>$\<close> matches
  at the end of the subject and also just before a newline that ends it.
\<close>

datatype re_item =
    Bol
  | Eol
  | Lit char
  | Rep "char \<Rightarrow> bool" nat
  | Plus "char \<Rightarrow> bool"

fun re_here :: "bool \<Rightarrow> re_item list \<Rightarrow> bool \<Rightarrow> string \<Rightarrow> bool" where
  "re_here ic [] at_start s = True"
| "re_here ic (Bol # r) at_start s = (at_start \<and> re_here ic r at_start s)"
| "re_here ic (Eol # r) at_start s = ((s = [] \<or> s = [CHR 0x0A]) \<and> re_here ic r at_start s)"
| "re_here ic (Lit c # r) at_start s =
     (case s of
        [] \<Rightarrow> False
      | x # t \<Rightarrow> (if ic then lower_char x = lower_char c else x = c) \<and> re_here ic r False t)"
| "re_here ic (Rep P n # r) at_start s =
     (n \<le> length s \<and> list_all P (take n s) \<and> re_here ic r (at_start \<and> n = 0) (drop n s))"
| "re_here ic (Plus P # r) at_start s =
     list_ex (\<lambda>k. re_here ic r False (drop k s)) (rev [1..<Suc (length (takeWhile P s))])"

text \<open>\<^verbatim>\<open>re.match(p, s)\<close> as a truth value.\<close>

definition re_match :: "bool \<Rightarrow> re_item list \<Rightarrow> string \<Rightarrow> bool" where
  "re_match ic p s = re_here ic p True s"

text \<open>\<^verbatim>\<open>re.search(p, s)\<close>: the start of the leftmost match, \<open>None\<close> when there is none.\<close>

fun re_search_from :: "bool \<Rightarrow> re_item list \<Rightarrow> nat \<Rightarrow> string \<Rightarrow> nat option" where
  "re_search_from ic p i [] = (if re_here ic p (i = 0) [] then Some i else None)"
| "re_search_from ic p i (c # cs) =
     (if re_here ic p (i = 0) (c # cs) then Some i else re_search_from ic p (Suc i) cs)"

definition re_search :: "bool \<Rightarrow> re_item list \<Rightarrow> string \<Rightarrow> nat option" where
  "re_search ic p s = re_search_from ic p 0 s"

subsection \<open>Rules and the page they are matched against\<close>

text \<open>
  A rule is a dictionary of the site configuration; a key may be missing, and reading a
  missing key with \<^verbatim>\<open>rule[...]\<close> raises \<^verbatim>\<open>KeyError\<close>. The values are strings, and a list of
  strings under \<^verbatim>\<open>patterns\<close>.
\<close>

record rule =
  rtype :: "string option"
  patterns :: "string list option"
  transform :: "string option"
  selector :: "string option"
  regex :: "string option"

text \<open>
  The patterns of a rule come from the configuration and are matched by Python's \<^verbatim>\<open>re\<close>.
  \<open>rx pattern text\<close> is \<^verbatim>\<open>re.search(pattern, text, re.I)\<close>: \<open>Inl\<close> when the call raises (a
  pattern that does not compile), \<open>Inr None\<close> when nothing matches, and otherwise the match
  object, of which the extractors read \<^verbatim>\<open>group(0)\<close> and \<^verbatim>\<open>group(1)\<close>. \<^verbatim>\<open>group(1)\<close> is a string,
  or \<^verbatim>\<open>None\<close> when the first group took no part in the match (\<open>Unmatched\<close>), or raises
  \<^verbatim>\<open>IndexError\<close> when the pattern has no group (\<open>NoSuchGroup\<close>).
\<close>

datatype capture = Captured string | Unmatched | NoSuchGroup

record rematch =
  group0 :: string
  group1 :: capture

type_synonym regex_lib = "string \<Rightarrow> string \<Rightarrow> error + rematch option"

definition group_1 :: "rematch \<Rightarrow> error + string option" where
  "group_1 m =
     (case group1 m of
        Captured s \<Rightarrow> Inr (Some s)
      | Unmatched \<Rightarrow> Inr None
      | NoSuchGroup \<Rightarrow> Inl IndexError)"

text \<open>
  \<open>soup_select sel\<close> lists the stripped texts of the elements \<^verbatim>\<open>soup.select(sel)\<close> returns, or
  is the exception the call raises. A live driver gives the text of the comments panel and,
  for a selector, the elements found with the text of each; every one of these lookups may
  raise. \<open>ctx_details\<close> and \<open>ctx_title\<close> are the entries \<^verbatim>\<open>listing_details\<close> and \<^verbatim>\<open>title\<close> of the
  context dictionary.
\<close>

record driver =
  comments_text :: "error + string"
  elements_text :: "string \<Rightarrow> error + (error + string) list"

record page =
  rx :: regex_lib
  soup_select :: "string \<Rightarrow> error + string list"
  live :: "driver option"
  ctx_details :: "string list"
  ctx_title :: string

text \<open>
  \<^verbatim>\<open>for pattern in patterns: match = re.search(pattern, text, re.I); if match: ...\<close>: the
  match of the first pattern that matches the text; a call that raises before that ends the
  loop with its exception.
\<close>

fun first_match :: "regex_lib \<Rightarrow> string list \<Rightarrow> string \<Rightarrow> error + rematch option" where
  "first_match f [] t = Inr None"
| "first_match f (p # ps) t =
     (case f p t of
        Inl e \<Rightarrow> Inl e
      | Inr (Some m) \<Rightarrow> Inr (Some m)
      | Inr None \<Rightarrow> first_match f ps t)"

subsection \<open>\<^verbatim>\<open>VINExtractor\<close>\<close>

definition vin_class :: "char \<Rightarrow> bool" where
  "vin_class c =
     (in_range (CHR ''A'') (CHR ''H'') c \<or> in_range (CHR ''J'') (CHR ''N'') c \<or> c = CHR ''P'' \<or>
      in_range (CHR ''R'') (CHR ''Z'') c \<or> in_range (CHR ''0'') (CHR ''9'') c)"

definition VIN_PATTERN :: "re_item list" where
  "VIN_PATTERN = [Rep vin_class 17]"

definition validate_vin :: "string \<Rightarrow> bool" where
  "validate_vin vin = re_match False ([Bol] @ VIN_PATTERN @ [Eol]) vin"

text \<open>
  The loop over the selected elements. There is no \<^verbatim>\<open>try\<close> here: a raising search and a
  pattern without a group raise, and the first match returns its \<^verbatim>\<open>group(1)\<close> at once, also
  when that is \<^verbatim>\<open>None\<close>.
\<close>

fun vin_extract_from_selector :: "regex_lib \<Rightarrow> string list \<Rightarrow> rule \<Rightarrow> error + string option" where
  "vin_extract_from_selector f [] r = Inr None"
| "vin_extract_from_selector f (t # ts) r =
     (case regex r of
        None \<Rightarrow> vin_extract_from_selector f ts r
      | Some re \<Rightarrow>
          (case f re t of
             Inl e \<Rightarrow> Inl e
           | Inr (Some m) \<Rightarrow> group_1 m
           | Inr None \<Rightarrow> vin_extract_from_selector f ts r))"

text \<open>
  The loop over the elements the driver found, inside \<^verbatim>\<open>try\<close> with a bare \<^verbatim>\<open>except: pass\<close>:
  whatever raises (reading the text of an element, a missing \<^verbatim>\<open>patterns\<close> key, the search,
  \<^verbatim>\<open>group(1)\<close>) gives \<^verbatim>\<open>None\<close>.
\<close>

fun first_match_texts :: "regex_lib \<Rightarrow> string list option \<Rightarrow> (error + string) list \<Rightarrow> string option" where
  "first_match_texts f ps [] = None"
| "first_match_texts f ps (Inl e # ts) = None"
| "first_match_texts f ps (Inr t # ts) =
     (case ps of
        None \<Rightarrow> None
      | Some pats \<Rightarrow>
          (case first_match f pats t of
             Inl e \<Rightarrow> None
           | Inr (Some m) \<Rightarrow> (case group_1 m of Inl e \<Rightarrow> None | Inr v \<Rightarrow> v)
           | Inr None \<Rightarrow> first_match_texts f ps ts))"

definition vin_extract_from_comments :: "regex_lib \<Rightarrow> driver \<Rightarrow> rule \<Rightarrow> string option" where
  "vin_extract_from_comments f d r =
     (case selector r of
        None \<Rightarrow> None
      | Some sel \<Rightarrow>
          (case elements_text d sel of
             Inl e \<Rightarrow> None
           | Inr texts \<Rightarrow> first_match_texts f (patterns r) texts))"

text \<open>The candidate one rule yields: the body of the loop of \<^verbatim>\<open>VINExtractor.extract\<close>.\<close>

definition vin_rule :: "page \<Rightarrow> rule \<Rightarrow> error + string option" where
  "vin_rule pg r =
     (case rtype r of
        None \<Rightarrow> Inl KeyError
      | Some ty \<Rightarrow>
          if ty = ''selector'' then
            (case selector r of
               None \<Rightarrow> Inl KeyError
             | Some sel \<Rightarrow>
                 (case soup_select pg sel of
                    Inl e \<Rightarrow> Inl e
                  | Inr texts \<Rightarrow> vin_extract_from_selector (rx pg) texts r))
          else if ty = ''comment_search'' then
            (case live pg of
               None \<Rightarrow> Inr None
             | Some d \<Rightarrow> Inr (vin_extract_from_comments (rx pg) d r))
          else Inr None)"

text \<open>\<^verbatim>\<open>if vin and self._validate_vin(vin)\<close>.\<close>

definition vin_accepted :: "string option \<Rightarrow> bool" where
  "vin_accepted c = (case c of None \<Rightarrow> False | Some v \<Rightarrow> v \<noteq> [] \<and> validate_vin v)"

fun vin_extract :: "page \<Rightarrow> rule list \<Rightarrow> error + string option" where
  "vin_extract pg [] = Inr None"
| "vin_extract pg (r # rs) =
     (case vin_rule pg r of
        Inl e \<Rightarrow> Inl e
      | Inr c \<Rightarrow> if vin_accepted c then Inr c else vin_extract pg rs)"

subsection \<open>\<^verbatim>\<open>MileageExtractor\<close>\<close>

text \<open>
  \<^verbatim>\<open>self._apply_transform(value, transform)\<close> on what \<^verbatim>\<open>group(1)\<close> gave. On \<^verbatim>\<open>None\<close> the three
  numeric transforms raise (\<^verbatim>\<open>float(None)\<close>, \<^verbatim>\<open>None.lower()\<close>, \<^verbatim>\<open>None.replace\<close>) and any other
  transform hands the \<^verbatim>\<open>None\<close> back.
\<close>

definition transform_value :: "string option \<Rightarrow> string \<Rightarrow> error + pyval option" where
  "transform_value v t =
     (case v of
        Some s \<Rightarrow> map_sum id Some (apply_transform s t)
      | None \<Rightarrow>
          if t = ''multiply_1000'' then Inl TypeError
          else if t = ''handle_k_miles'' \<or> t = ''remove_commas'' then Inl AttributeError
          else Inr None)"

text \<open>\<^verbatim>\<open>int(value.replace(',', ''))\<close>, the conversion of a detail line without a transform.\<close>

definition int_without_commas :: "string option \<Rightarrow> error + pyval option" where
  "int_without_commas v =
     (case v of
        None \<Rightarrow> Inl AttributeError
      | Some s \<Rightarrow> map_sum id (\<lambda>n. Some (VInt n)) (py_int (remove_commas s)))"

text \<open>\<^verbatim>\<open>int(float(value) * 1000)\<close>, the conversion of a title without a transform.\<close>

definition thousands :: "string option \<Rightarrow> error + pyval option" where
  "thousands v =
     (case v of
        None \<Rightarrow> Inl TypeError
      | Some s \<Rightarrow>
          (case py_float s of
             Inl e \<Rightarrow> Inl e
           | Inr x \<Rightarrow> map_sum id (\<lambda>n. Some (VInt n)) (int_times_1000 x)))"

text \<open>What follows a match in \<^verbatim>\<open>_extract_from_details\<close> and \<^verbatim>\<open>_extract_from_title\<close>.\<close>

definition convert_match ::
  "rule \<Rightarrow> (string option \<Rightarrow> error + pyval option) \<Rightarrow> rematch \<Rightarrow> error + pyval option" where
  "convert_match r dflt m =
     (case group_1 m of
        Inl e \<Rightarrow> Inl e
      | Inr v \<Rightarrow> (case transform r of Some t \<Rightarrow> transform_value v t | None \<Rightarrow> dflt v))"

text \<open>\<^verbatim>\<open>rule['patterns']\<close> is read once for every detail line, so never for an empty list.\<close>

fun extract_from_details :: "regex_lib \<Rightarrow> string list \<Rightarrow> rule \<Rightarrow> error + pyval option" where
  "extract_from_details f [] r = Inr None"
| "extract_from_details f (d # ds) r =
     (case patterns r of
        None \<Rightarrow> Inl KeyError
      | Some ps \<Rightarrow>
          (case first_match f ps d of
             Inl e \<Rightarrow> Inl e
           | Inr None \<Rightarrow> extract_from_details f ds r
           | Inr (Some m) \<Rightarrow> convert_match r int_without_commas m))"

definition extract_from_title :: "regex_lib \<Rightarrow> string \<Rightarrow> rule \<Rightarrow> error + pyval option" where
  "extract_from_title f t r =
     (case patterns r of
        None \<Rightarrow> Inl KeyError
      | Some ps \<Rightarrow>
          (case first_match f ps t of
             Inl e \<Rightarrow> Inl e
           | Inr None \<Rightarrow> Inr None
           | Inr (Some m) \<Rightarrow> convert_match r thousands m))"

text \<open>
  Under \<^verbatim>\<open>try\<close> with a bare \<^verbatim>\<open>except: pass\<close>: a failing lookup, a missing key, a failing search
  and a failing conversion all give \<^verbatim>\<open>None\<close>. The \<^verbatim>\<open>transform\<close> of the rule is not read.
\<close>

definition extract_from_comments :: "regex_lib \<Rightarrow> driver \<Rightarrow> rule \<Rightarrow> pyval option" where
  "extract_from_comments f d r =
     (case comments_text d of
        Inl e \<Rightarrow> None
      | Inr text \<Rightarrow>
          (case patterns r of
             None \<Rightarrow> None
           | Some ps \<Rightarrow>
               (case first_match f ps text of
                  Inr (Some m) \<Rightarrow>
                    (case group_1 m of
                       Inr v \<Rightarrow> (case int_without_commas v of Inl e \<Rightarrow> None | Inr n \<Rightarrow> n)
                     | Inl e \<Rightarrow> None)
                | _ \<Rightarrow> None)))"

text \<open>The value one rule yields: the body of the loop of \<^verbatim>\<open>MileageExtractor.extract\<close>.\<close>

definition mileage_rule :: "page \<Rightarrow> rule \<Rightarrow> error + pyval option" where
  "mileage_rule pg r =
     (case rtype r of
        None \<Rightarrow> Inl KeyError
      | Some ty \<Rightarrow>
          if ty = ''listing_detail'' then extract_from_details (rx pg) (ctx_details pg) r
          else if ty = ''title'' then extract_from_title (rx pg) (ctx_title pg) r
          else if ty = ''comment_search'' then
            (case live pg of
               None \<Rightarrow> Inr None
             | Some d \<Rightarrow> Inr (extract_from_comments (rx pg) d r))
          else Inr None)"

text \<open>\<^verbatim>\<open>if mileage is not None: return mileage\<close>.\<close>

fun mileage_extract :: "page \<Rightarrow> rule list \<Rightarrow> error + pyval option" where
  "mileage_extract pg [] = Inr None"
| "mileage_extract pg (r # rs) =
     (case mileage_rule pg r of
        Inl e \<Rightarrow> Inl e
      | Inr (Some m) \<Rightarrow> Inr (Some m)
      | Inr None \<Rightarrow> mileage_extract pg rs)"

subsection \<open>\<^verbatim>\<open>TransmissionExtractor\<close>\<close>

text \<open>
  Each detail line has its non-breaking hyphens and its en and em dashes (U+2011, U+2013,
  U+2014) replaced by \<open>-\<close> before the search. None of the three is a Latin-1 character, so on
  the texts modelled here the replacement leaves the line as it is.
\<close>

definition normalize_dashes :: "string \<Rightarrow> string" where
  "normalize_dashes detail = detail"

text \<open>The first match returns \<^verbatim>\<open>match.group(0).strip()\<close>, which may be the empty string.\<close>

fun transmission_from_details :: "regex_lib \<Rightarrow> string list \<Rightarrow> rule \<Rightarrow> error + string option" where
  "transmission_from_details f [] r = Inr None"
| "transmission_from_details f (d # ds) r =
     (case patterns r of
        None \<Rightarrow> Inl KeyError
      | Some ps \<Rightarrow>
          (case first_match f ps (normalize_dashes d) of
             Inl e \<Rightarrow> Inl e
           | Inr None \<Rightarrow> transmission_from_details f ds r
           | Inr (Some m) \<Rightarrow> Inr (Some (py_strip (group0 m)))))"

text \<open>
  The candidate one rule yields in \<^verbatim>\<open>TransmissionExtractor.extract\<close>; a rule of another type
  than \<^verbatim>\<open>listing_detail\<close> yields none.
\<close>

definition transmission_rule :: "page \<Rightarrow> rule \<Rightarrow> error + string option" where
  "transmission_rule pg r =
     (case rtype r of
        None \<Rightarrow> Inl KeyError
      | Some ty \<Rightarrow>
          if ty = ''listing_detail'' then transmission_from_details (rx pg) (ctx_details pg) r
          else Inr None)"

text \<open>\<^verbatim>\<open>if transmission: return transmission\<close>.\<close>

fun transmission_extract :: "page \<Rightarrow> rule list \<Rightarrow> error + string option" where
  "transmission_extract pg [] = Inr None"
| "transmission_extract pg (r # rs) =
     (case transmission_rule pg r of
        Inl e \<Rightarrow> Inl e
      | Inr c \<Rightarrow> if truthy c then Inr c else transmission_extract pg rs)"

subsection \<open>\<^verbatim>\<open>ColorExtractor\<close>\<close>

text \<open>
  The rules of the colour extractor are dictionaries of another shape: the patterns and the
  flag \<^verbatim>\<open>next_is_interior\<close> under \<^verbatim>\<open>exterior\<close>, the two keyword lists under \<^verbatim>\<open>interior\<close>. All
  four are read with \<^verbatim>\<open>get\<close>, a missing one being an empty list or a false flag.
\<close>

record color_rule =
  exterior_patterns :: "string list"
  next_is_interior :: bool
  interior_keywords :: "string list"
  skip_keywords :: "string list"

text \<open>
  The first loop over the detail lines, carrying \<^verbatim>\<open>exterior\<close> and \<^verbatim>\<open>interior\<close>. A line is
  searched only while \<^verbatim>\<open>exterior\<close> is empty or \<^verbatim>\<open>None\<close>; \<^verbatim>\<open>match.group(1).strip()\<close> raises when
  the group is \<^verbatim>\<open>None\<close>; \<^verbatim>\<open>idx + 1 < len(listing_details)\<close> says that a line follows.
\<close>

fun exterior_scan ::
  "regex_lib \<Rightarrow> color_rule \<Rightarrow> string list \<Rightarrow> string option \<times> string option \<Rightarrow>
   error + string option \<times> string option" where
  "exterior_scan f r [] found = Inr found"
| "exterior_scan f r (d # ds) (exterior, interior) =
     (if truthy exterior then exterior_scan f r ds (exterior, interior)
      else
        (case first_match f (exterior_patterns r) d of
           Inl e \<Rightarrow> Inl e
         | Inr None \<Rightarrow> exterior_scan f r ds (exterior, interior)
         | Inr (Some m) \<Rightarrow>
             (case group_1 m of
                Inl e \<Rightarrow> Inl e
              | Inr None \<Rightarrow> Inl AttributeError
              | Inr (Some v) \<Rightarrow>
                  exterior_scan f r ds
                    (Some (py_strip v),
                     case ds of
                       nxt # _ \<Rightarrow> if next_is_interior r then Some (py_strip nxt) else interior
                     | [] \<Rightarrow> interior))))"

text \<open>
  The second loop: the first line with an interior keyword, lines with a skip keyword, blank
  lines and lines of more than eight words being passed over.
\<close>

fun interior_scan :: "color_rule \<Rightarrow> string list \<Rightarrow> string option" where
  "interior_scan r [] = None"
| "interior_scan r (d # ds) =
     (let detail_lower = py_lower d in
      if list_ex (\<lambda>keyword. py_in keyword detail_lower) (skip_keywords r) then interior_scan r ds
      else if py_strip d = [] \<or> length (py_split d) > 8 then interior_scan r ds
      else if list_ex (\<lambda>keyword. py_in keyword detail_lower) (interior_keywords r)
        then Some (py_strip d)
      else interior_scan r ds)"

text \<open>\<^verbatim>\<open>ColorExtractor.extract\<close>: of the rule list only \<^verbatim>\<open>self.rules[0]\<close> is read.\<close>

definition color_extract ::
  "page \<Rightarrow> color_rule list \<Rightarrow> error + string option \<times> string option" where
  "color_extract pg rules =
     (case rules of
        [] \<Rightarrow> Inr (None, None)
      | color_rules # _ \<Rightarrow>
          (case exterior_scan (rx pg) color_rules (ctx_details pg) (None, None) of
             Inl e \<Rightarrow> Inl e
           | Inr (exterior, interior) \<Rightarrow>
               if truthy interior then Inr (exterior, interior)
               else
                 (case interior_scan color_rules (ctx_details pg) of
                    Some v \<Rightarrow> Inr (exterior, Some v)
                  | None \<Rightarrow> Inr (exterior, interior))))"

section \<open>Data model\<close>

subsection \<open>\<^verbatim>\<open>Listing\<close> and its serialisation\<close>

record listing =
  url :: string
  source :: string
  title :: string
  lot_number :: "string option"
  seller :: "string option"
  seller_type :: "string option"
  result :: "string option"
  high_bidder :: "string option"
  price :: "int option"
  sale_date :: "string option"
  number_of_bids :: "int option"
  vin :: "string option"
  year :: "int option"
  car_make :: "string option"
  model :: "string option"
  variant :: "string option"
  convertible :: bool
  engine :: "string option"
  transmission :: "string option"
  exterior_color :: "string option"
  interior_color :: "string option"
  mileage :: "int option"
  location :: "string option"
  country :: "string option"
  listing_details :: "string list"
  excerpt :: "string list"

text \<open>The values of the flat record; a dictionary is an association list in key order.\<close>

datatype json = JStr string | JInt int | JBool bool | JNull | JStrList "string list"

type_synonym dict = "(string \<times> json) list"

text \<open>\<^verbatim>\<open>x or 'N/A'\<close> for an optional string: \<^verbatim>\<open>None\<close> and the empty string are falsy.\<close>

definition or_na :: "string option \<Rightarrow> json" where
  "or_na x = (case x of None \<Rightarrow> JStr ''N/A'' | Some s \<Rightarrow> if s = [] then JStr ''N/A'' else JStr s)"

definition opt_int :: "int option \<Rightarrow> json" where
  "opt_int x = (case x of None \<Rightarrow> JNull | Some n \<Rightarrow> JInt n)"

definition to_dict :: "listing \<Rightarrow> dict" where
  "to_dict l =
     [(''url'', JStr (url l)),
      (''source'', JStr (source l)),
      (''lot_number'', or_na (lot_number l)),
      (''seller'', or_na (seller l)),
      (''seller_type'', or_na (seller_type l)),
      (''result'', or_na (result l)),
      (''high_bidder'', or_na (high_bidder l)),
      (''price'', opt_int (price l)),
      (''sale_date'', or_na (sale_date l)),
      (''number_of_bids'', opt_int (number_of_bids l)),
      (''title'', or_na (Some (title l))),
      (''vin'', or_na (vin l)),
      (''year'', opt_int (year l)),
      (''make'', or_na (car_make l)),
      (''model'', or_na (model l)),
      (''variant'', or_na (variant l)),
      (''convertible'', JBool (convertible l)),
      (''engine'', or_na (engine l)),
      (''transmission'', or_na (transmission l)),
      (''exterior_color'', or_na (exterior_color l)),
      (''interior_color'', or_na (interior_color l)),
      (''mileage'', opt_int (mileage l)),
      (''location'', or_na (location l)),
      (''listing_details'', JStrList (listing_details l)),
      (''excerpt'', JStrList (excerpt l))]"

text \<open>
  \<^verbatim>\<open>data.get(key)\<close> and \<^verbatim>\<open>data.get(key, default)\<close>, read at the type of the field. A value
  of another type, which \<open>to_dict\<close> never writes, is read as absent.
\<close>

definition get_str :: "dict \<Rightarrow> string \<Rightarrow> string option" where
  "get_str d k = (case map_of d k of Some (JStr s) \<Rightarrow> Some s | _ \<Rightarrow> None)"

definition get_int :: "dict \<Rightarrow> string \<Rightarrow> int option" where
  "get_int d k = (case map_of d k of Some (JInt n) \<Rightarrow> Some n | _ \<Rightarrow> None)"

definition get_str_default :: "dict \<Rightarrow> string \<Rightarrow> string \<Rightarrow> string" where
  "get_str_default d k dflt = (case map_of d k of Some (JStr s) \<Rightarrow> s | _ \<Rightarrow> dflt)"

definition get_bool_default :: "dict \<Rightarrow> string \<Rightarrow> bool \<Rightarrow> bool" where
  "get_bool_default d k dflt = (case map_of d k of Some (JBool b) \<Rightarrow> b | _ \<Rightarrow> dflt)"

definition get_list_default :: "dict \<Rightarrow> string \<Rightarrow> string list \<Rightarrow> string list" where
  "get_list_default d k dflt = (case map_of d k of Some (JStrList xs) \<Rightarrow> xs | _ \<Rightarrow> dflt)"

definition from_dict :: "dict \<Rightarrow> listing" where
  "from_dict d =
     \<lparr>url = get_str_default d ''url'' [],
      source = get_str_default d ''source'' ''unknown'',
      title = get_str_default d ''title'' [],
      lot_number = get_str d ''lot_number'',
      seller = get_str d ''seller'',
      seller_type = get_str d ''seller_type'',
      result = get_str d ''result'',
      high_bidder = get_str d ''high_bidder'',
      price = get_int d ''price'',
      sale_date = get_str d ''sale_date'',
      number_of_bids = get_int d ''number_of_bids'',
      vin = get_str d ''vin'',
      year = get_int d ''year'',
      car_make = get_str d ''make'',
      model = get_str d ''model'',
      variant = get_str d ''variant'',
      convertible = get_bool_default d ''convertible'' False,
      engine = get_str d ''engine'',
      transmission = get_str d ''transmission'',
      exterior_color = get_str d ''exterior_color'',
      interior_color = get_str d ''interior_color'',
      mileage = get_int d ''mileage'',
      location = get_str d ''location'',
      country = get_str d ''country'',
      listing_details = get_list_default d ''listing_details'' [],
      excerpt = get_list_default d ''excerpt'' []\<rparr>"

subsection \<open>\<^verbatim>\<open>ScrapeConfig\<close>\<close>

text \<open>
  The record package reserves the names \<open>make\<close> and \<open>fields\<close>: the configuration's \<^verbatim>\<open>make\<close>
  and \<^verbatim>\<open>fields\<close> are \<open>config_make\<close> and \<open>config_fields\<close>, the listing's \<^verbatim>\<open>make\<close> is \<open>car_make\<close>.
\<close>

record scrape_config =
  slugs :: "string list"
  config_make :: string
  model_full :: string
  model_short :: string
  min_year :: "int option"
  max_year :: "int option"
  max_listings :: int
  max_clicks :: int
  headless :: bool
  sort_oldest :: bool
  append_file :: "string option"
  config_fields :: "string list option"

text \<open>
  \<^verbatim>\<open>if self.min_year and year < self.min_year\<close>: the bound is tested for truth first, so
  \<^verbatim>\<open>None\<close> and \<open>0\<close> both skip the comparison; comparing \<^verbatim>\<open>None\<close> with an integer raises
  \<^verbatim>\<open>TypeError\<close>.
\<close>

definition bound_violated :: "int option \<Rightarrow> (int \<Rightarrow> int \<Rightarrow> bool) \<Rightarrow> int option \<Rightarrow> error + bool" where
  "bound_violated bound cmp y =
     (case bound of
        None \<Rightarrow> Inr False
      | Some b \<Rightarrow>
          if b = 0 then Inr False
          else (case y of None \<Rightarrow> Inl TypeError | Some n \<Rightarrow> Inr (cmp n b)))"

definition should_skip_year :: "scrape_config \<Rightarrow> int option \<Rightarrow> error + bool" where
  "should_skip_year cfg y =
     (case bound_violated (min_year cfg) (\<lambda>n b. n < b) y of
        Inl e \<Rightarrow> Inl e
      | Inr True \<Rightarrow> Inr True
      | Inr False \<Rightarrow>
          (case bound_violated (max_year cfg) (\<lambda>n b. n > b) y of
             Inl e \<Rightarrow> Inl e
           | Inr True \<Rightarrow> Inr True
           | Inr False \<Rightarrow> Inr False))"

section \<open>Storage adapter (\<^verbatim>\<open>JSONStorage\<close>)\<close>

text \<open>
  The adapter keeps the set \<^verbatim>\<open>existing_lot_numbers\<close>, filled once from the records of the
  prior file. Loading runs under \<^verbatim>\<open>try\<close> with a bare \<^verbatim>\<open>except: pass\<close>: a list where the lot
  number should be is unhashable and ends the loading with what was read so far. Values that
  are not strings never equal the string a lookup asks for, so they are left out.
\<close>

fun load_existing_lot_numbers :: "dict list \<Rightarrow> string set \<Rightarrow> string set" where
  "load_existing_lot_numbers [] acc = acc"
| "load_existing_lot_numbers (item # items) acc =
     (case map_of item ''lot_number'' of
        None \<Rightarrow> load_existing_lot_numbers items acc
      | Some (JStr s) \<Rightarrow>
          if s \<noteq> ''N/A'' then load_existing_lot_numbers items (insert s acc)
          else load_existing_lot_numbers items acc
      | Some (JStrList xs) \<Rightarrow> acc
      | Some _ \<Rightarrow> load_existing_lot_numbers items acc)"

text \<open>The constructor: \<open>None\<close> is a file that is missing or cannot be read as JSON.\<close>

definition json_storage :: "dict list option \<Rightarrow> string set" where
  "json_storage prior = (case prior of None \<Rightarrow> {} | Some items \<Rightarrow> load_existing_lot_numbers items {})"

definition storage_exists :: "string set \<Rightarrow> string \<Rightarrow> bool" where
  "storage_exists existing_lot_numbers lot = (lot \<in> existing_lot_numbers)"

section \<open>Scraping pipeline (\<^verbatim>\<open>ScrapingPipeline._scrape_listings\<close>)\<close>

text \<open>
  What the loop of \<^verbatim>\<open>_scrape_listings\<close> does with one extracted listing. \<open>Raised\<close> is an
  exception inside the \<^verbatim>\<open>try\<close> block, which the handler \<^verbatim>\<open>except Exception\<close> absorbs.
\<close>

datatype verdict =
    Duplicate
  | NonUSA
  | Modified
  | YearOutOfRange
  | NoVIN
  | Accepted
  | Raised error

definition is_duplicate :: "string set option \<Rightarrow> listing \<Rightarrow> bool" where
  "is_duplicate append_storage l =
     (case append_storage of
        None \<Rightarrow> False
      | Some st \<Rightarrow>
          (case lot_number l of
             None \<Rightarrow> False
           | Some lot \<Rightarrow> lot \<noteq> [] \<and> lot \<noteq> ''N/A'' \<and> storage_exists st lot))"

definition country_rejected :: "listing \<Rightarrow> bool" where
  "country_rejected l = (truthy (country l) \<and> country l \<noteq> Some ''USA'')"

definition listing_verdict :: "scrape_config \<Rightarrow> string set option \<Rightarrow> listing \<Rightarrow> verdict" where
  "listing_verdict cfg append_storage l =
     (if is_duplicate append_storage l then Duplicate
      else if country_rejected l then NonUSA
      else if py_in ''modified'' (py_lower (title l)) then Modified
      else
        (case should_skip_year cfg (year l) of
           Inl e \<Rightarrow> Raised e
         | Inr True \<Rightarrow> YearOutOfRange
         | Inr False \<Rightarrow>
             if \<not> truthy (vin l) \<or> vin l = Some ''N/A'' then NoVIN else Accepted))"

definition filter_fields :: "listing \<Rightarrow> string list \<Rightarrow> listing" where
  "filter_fields l fs =
     from_dict (List.map_filter (\<lambda>f. map_option (Pair f) (map_of (to_dict l) f)) fs)"

text \<open>\<^verbatim>\<open>if config.fields\<close>: \<^verbatim>\<open>None\<close> and the empty list keep the listing as it is.\<close>

definition kept :: "scrape_config \<Rightarrow> listing \<Rightarrow> listing" where
  "kept cfg l =
     (case config_fields cfg of
        None \<Rightarrow> l
      | Some fs \<Rightarrow> if fs = [] then l else filter_fields l fs)"

text \<open>
  One visit per URL of the list, in order: what \<^verbatim>\<open>site.extract_listing\<close> gives there (a
  listing or an exception) and whether the first \<^verbatim>\<open>browser.back()\<close> of that iteration raises.
  The counters and printed lines are left out; \<open>acc\<close> is the list \<^verbatim>\<open>listings\<close>.
\<close>

record visit =
  extracted :: "error + listing"
  back_raises :: bool

fun scrape_listings :: "scrape_config \<Rightarrow> string set option \<Rightarrow> visit list \<Rightarrow> listing list \<Rightarrow> listing list" where
  "scrape_listings cfg st [] acc = acc"
| "scrape_listings cfg st (v # vs) acc =
     (case extracted v of
        Inl e \<Rightarrow> scrape_listings cfg st vs acc
      | Inr l \<Rightarrow>
          (case listing_verdict cfg st l of
             Duplicate \<Rightarrow> if back_raises v then scrape_listings cfg st vs acc else acc
           | Accepted \<Rightarrow> scrape_listings cfg st vs (acc @ [kept cfg l])
           | _ \<Rightarrow> scrape_listings cfg st vs acc))"

section \<open>Site adapter (\<^verbatim>\<open>BringATrailerSite\<close>)\<close>

subsection \<open>Listing loader (\<^verbatim>\<open>_load_all_listings\<close>)\<close>

text \<open>
  One pass through the body of the \<^verbatim>\<open>while\<close> loop meets one \<open>reveal\<close>: the keys of the
  dictionary the configured script returns (\<open>Inl\<close>: an exception raised by a script call or
  by testing the result, before any counter changed), the number of cards counted before the
  script ran, and the number counted by each of the polls that follow a success
  (\<^verbatim>\<open>browser.find_elements\<close> returns an empty list instead of raising). Sleeps and printed
  lines are left out.
\<close>

record reveal =
  script_keys :: "error + string list"
  listings_before :: nat
  listings_after :: "nat \<Rightarrow> nat"

record loader_state =
  clicks :: int
  consecutive_failures :: nat

datatype 'a flow = Break 'a | Continue 'a

text \<open>\<^verbatim>\<open>consecutive_failures += 1; if consecutive_failures >= 2: break\<close>.\<close>

definition count_failure :: "loader_state \<Rightarrow> loader_state flow" where
  "count_failure s =
     (let s' = s\<lparr>consecutive_failures := consecutive_failures s + 1\<rparr> in
      if consecutive_failures s' \<ge> 2 then Break s' else Continue s')"

text \<open>\<^verbatim>\<open>for wait_attempt in range(15)\<close>: whether some poll counts more cards than before.\<close>

definition growth_seen :: "reveal \<Rightarrow> bool" where
  "growth_seen ev = list_ex (\<lambda>k. listings_after ev k > listings_before ev) [0..<15]"

text \<open>
  The loop body. Printing \<^verbatim>\<open>result['reason']\<close> raises \<^verbatim>\<open>KeyError\<close> when the key is missing,
  which the handler counts as a failure. A result with none of the three keys leaves both
  counters as they are.
\<close>

definition loader_step :: "reveal \<Rightarrow> loader_state \<Rightarrow> loader_state flow" where
  "loader_step ev s =
     (case script_keys ev of
        Inl e \<Rightarrow> count_failure s
      | Inr ks \<Rightarrow>
          if ''done'' \<in> set ks then
            (if ''reason'' \<in> set ks then Break s else count_failure s)
          else if ''error'' \<in> set ks then count_failure s
          else if ''success'' \<in> set ks then
            (let s1 = s\<lparr>clicks := clicks s + 1\<rparr> in
             if growth_seen ev then Continue (s1\<lparr>consecutive_failures := 0\<rparr>)
             else count_failure s1)
          else Continue s)"

text \<open>
  \<^verbatim>\<open>while clicks < max_clicks\<close>, the \<open>i\<close>-th pass meeting \<open>evs i\<close>. The loop need not end, so
  not returning is the value \<open>None\<close>.
\<close>

partial_function (option) loader_loop ::
  "int \<Rightarrow> (nat \<Rightarrow> reveal) \<Rightarrow> nat \<Rightarrow> loader_state \<Rightarrow> loader_state option" where
  "loader_loop budget evs i s =
     (if clicks s < budget then
        (case loader_step (evs i) s of
           Break s' \<Rightarrow> Some s'
         | Continue s' \<Rightarrow> loader_loop budget evs (Suc i) s')
      else Some s)"

definition load_all_listings :: "int \<Rightarrow> (nat \<Rightarrow> reveal) \<Rightarrow> loader_state option" where
  "load_all_listings budget evs =
     loader_loop budget evs 0 \<lparr>clicks = 0, consecutive_failures = 0\<rparr>"

text \<open>A result the loop acts on: an exception, or one of the keys it tests for.\<close>

definition recognised :: "reveal \<Rightarrow> bool" where
  "recognised ev =
     (case script_keys ev of
        Inl e \<Rightarrow> True
      | Inr ks \<Rightarrow> ''done'' \<in> set ks \<or> ''error'' \<in> set ks \<or> ''success'' \<in> set ks)"


subsection \<open>Variant name (\<^verbatim>\<open>_extract_variant\<close>)\<close>

text \<open>The pattern \<^verbatim>\<open>\d+-Speed\<close>, searched with \<^verbatim>\<open>re.I\<close>.\<close>

definition speed_pattern :: "re_item list" where
  "speed_pattern = Plus is_digit # map Lit ''-Speed''"

text \<open>
  What the pattern stands for, stated without the matcher: a text starts with a speed token
  when it begins with one or more digits followed by \<^verbatim>\<open>-speed\<close> in any letter case.
\<close>

definition starts_with_speed :: "string \<Rightarrow> bool" where
  "starts_with_speed r =
     (\<exists>ds rest. ds \<noteq> [] \<and> list_all is_digit ds \<and> r = ds @ rest \<and>
        py_lower (take 6 rest) = ''-speed'')"

definition common_words :: "string list" where
  "common_words = [''for'', ''with'', ''in'', ''at'', ''by'', ''from'', ''on'', ''and'', ''the'']"

text \<open>\<^verbatim>\<open>title[make_index + len(config.make):].strip()\<close> and the same after the model.\<close>

definition after_match :: "string \<Rightarrow> nat \<Rightarrow> string \<Rightarrow> string" where
  "after_match t i name = py_strip (drop (i + length name) t)"

text \<open>The text before the first \<^verbatim>\<open>\d+-Speed\<close>, or all of it, stripped.\<close>

definition cut_speed :: "string \<Rightarrow> string" where
  "cut_speed after_model =
     (case re_search True speed_pattern after_model of
        Some variant_end \<Rightarrow> py_strip (take variant_end after_model)
      | None \<Rightarrow> py_strip after_model)"

definition starts_with_common_word :: "string \<Rightarrow> bool" where
  "starts_with_common_word v =
     (case py_split v of
        [] \<Rightarrow> False
      | first_word # ws \<Rightarrow> py_lower first_word \<in> set common_words)"

text \<open>
  No operation of the body raises on strings, so the \<^verbatim>\<open>except\<close> branch is never taken.
\<close>

definition extract_variant :: "string \<Rightarrow> scrape_config \<Rightarrow> string" where
  "extract_variant t cfg =
     (case py_find (py_upper t) (py_upper (config_make cfg)) of
        None \<Rightarrow> ''Standard''
      | Some make_index \<Rightarrow>
          (let after_make = after_match t make_index (config_make cfg) in
           case py_find (py_upper after_make) (py_upper (model_short cfg)) of
             None \<Rightarrow> ''Standard''
           | Some model_index \<Rightarrow>
               (let after_model = after_match after_make model_index (model_short cfg) in
                if after_model = [] then ''Standard''
                else
                  (let v = cut_speed after_model in
                   if v = [] then ''Standard''
                   else if starts_with_common_word v then ''Standard''
                   else v))))"

section \<open>Humanization engine (\<^verbatim>\<open>DelayStrategy\<close>)\<close>

text \<open>
  Durations are exact rationals in seconds. The random numbers one call of \<^verbatim>\<open>get_delay\<close>
  may draw are its input: \<^verbatim>\<open>uniform(1.5, 3.0)\<close>, \<^verbatim>\<open>randint(10, 15)\<close>, \<^verbatim>\<open>uniform(8, 15)\<close>,
  \<^verbatim>\<open>random()\<close> and \<^verbatim>\<open>uniform(0.5, 1.0)\<close>, in the order of the source.
\<close>

record draws =
  base_delay :: rat
  period :: nat
  long_pause :: rat
  coin :: rat
  quick_delay :: rat

definition draws_in_range :: "draws \<Rightarrow> bool" where
  "draws_in_range d =
     (3 / 2 \<le> base_delay d \<and> base_delay d \<le> 3 \<and> 10 \<le> period d \<and> period d \<le> 15 \<and>
      8 \<le> long_pause d \<and> long_pause d \<le> 15 \<and> 0 \<le> coin d \<and> coin d < 1 \<and>
      1 / 2 \<le> quick_delay d \<and> quick_delay d \<le> 1)"

record delay_strategy =
  min_delay :: rat
  action_count :: nat

definition new_delay_strategy :: "rat \<Rightarrow> delay_strategy" where
  "new_delay_strategy m = \<lparr>min_delay = m, action_count = 0\<rparr>"

definition get_delay :: "draws \<Rightarrow> delay_strategy \<Rightarrow> rat \<times> delay_strategy" where
  "get_delay d s =
     (let s' = s\<lparr>action_count := action_count s + 1\<rparr> in
      if action_count s' mod period d = 0 then (long_pause d, s')
      else
        (let fatigue_factor = 1 + of_nat (action_count s') * (5 / 1000);
             delay = (if coin d < 15 / 100 then quick_delay d
                      else base_delay d * fatigue_factor)
         in (max delay (min_delay s'), s')))"

text \<open>Successive calls on one strategy object; the delays are returned in call order.\<close>

fun get_delays :: "draws list \<Rightarrow> delay_strategy \<Rightarrow> rat list" where
  "get_delays [] s = []"
| "get_delays (d # ds) s = (case get_delay d s of (x, s') \<Rightarrow> x # get_delays ds s')"

section \<open>Sample inputs\<close>

text \<open>Concrete pages, listings and runs at which the results below are evaluated.\<close>

definition table_rx :: "((string \<times> string) \<times> rematch) list \<Rightarrow> regex_lib" where
  "table_rx tbl p t = Inr (map_of tbl (p, t))"

definition whole :: "string \<Rightarrow> string \<Rightarrow> rematch" where
  "whole g0 g1 = \<lparr>group0 = g0, group1 = Captured g1\<rparr>"

text \<open>
  A detail page whose chassis link reads \<^verbatim>\<open>Chassis: WBSBL93498CY13754\<close>; the table lists the
  matches \<^verbatim>\<open>re.search\<close> finds for the patterns of the rules below, every other search finding
  none. The pattern \<^verbatim>\<open>(?:Automatic)?\<close> matches the empty text at the start of any line.
\<close>

definition chassis_page :: page where
  "chassis_page =
     \<lparr>rx = table_rx
        [((''(Chassis)'', ''Chassis: WBSBL93498CY13754''), whole ''Chassis'' ''Chassis''),
         ((''([A-HJ-NPR-Z0-9]{17})'', ''Chassis: WBSBL93498CY13754''),
            whole ''WBSBL93498CY13754'' ''WBSBL93498CY13754''),
         ((''([0-9,]+) Miles'', ''45,000 Miles Shown''), whole ''45,000 Miles'' ''45,000''),
         ((''([0-9,]+ Miles)'', ''45,000 Miles Shown''), whole ''45,000 Miles'' ''45,000 Miles''),
         ((''([0-9]+)k-Mile'', ''46k-Mile 2003 BMW M3''), whole ''46k-Mile'' ''46''),
         ((''(?:Automatic)?'', ''45,000 Miles Shown''), \<lparr>group0 = [], group1 = NoSuchGroup\<rparr>),
         ((''[a-z]+-Speed [a-z]+ Trans[a-z]+'', ''Six-Speed Manual Transmission''),
            \<lparr>group0 = ''Six-Speed Manual Transmission'', group1 = NoSuchGroup\<rparr>),
         ((''(.+) Paint'', ''Carbon Black Metallic Paint''),
            whole ''Carbon Black Metallic Paint'' ''Carbon Black Metallic'')],
      soup_select =
        (\<lambda>sel. Inr (if sel = ''.essentials a'' then [''Chassis: WBSBL93498CY13754''] else [])),
      live = None,
      ctx_details = [''45,000 Miles Shown'', ''Six-Speed Manual Transmission'',
                     ''Carbon Black Metallic Paint'', ''Cinnamon Nappa Leather Upholstery''],
      ctx_title = ''46k-Mile 2003 BMW M3''\<rparr>"

definition label_rule :: rule where
  "label_rule = \<lparr>rtype = Some ''selector'', patterns = None, transform = None,
                  selector = Some ''.essentials a'', regex = Some ''(Chassis)''\<rparr>"

definition chassis_rule :: rule where
  "chassis_rule = \<lparr>rtype = Some ''selector'', patterns = None, transform = None,
                    selector = Some ''.essentials a'', regex = Some ''([A-HJ-NPR-Z0-9]{17})''\<rparr>"

definition detail_rule :: rule where
  "detail_rule = \<lparr>rtype = Some ''listing_detail'', patterns = Some [''([0-9,]+) Miles''],
                   transform = Some ''remove_commas'', selector = None, regex = None\<rparr>"

definition title_rule :: rule where
  "title_rule = \<lparr>rtype = Some ''title'', patterns = Some [''([0-9]+)k-Mile''],
                  transform = None, selector = None, regex = None\<rparr>"

text \<open>A rule whose group takes in the unit: the conversion of \<^verbatim>\<open>45,000 Miles\<close> raises.\<close>

definition unit_rule :: rule where
  "unit_rule = \<lparr>rtype = Some ''listing_detail'', patterns = Some [''([0-9,]+ Miles)''],
                 transform = None, selector = None, regex = None\<rparr>"

definition automatic_rule :: rule where
  "automatic_rule = \<lparr>rtype = Some ''listing_detail'', patterns = Some [''(?:Automatic)?''],
                      transform = None, selector = None, regex = None\<rparr>"

definition gearbox_rule :: rule where
  "gearbox_rule =
     \<lparr>rtype = Some ''listing_detail'', patterns = Some [''[a-z]+-Speed [a-z]+ Trans[a-z]+''],
      transform = None, selector = None, regex = None\<rparr>"

text \<open>
  The same page seen through a live driver whose lookups fail, and with one pattern that does
  not compile.
\<close>

definition live_page :: page where
  "live_page =
     chassis_page
       \<lparr>rx := (\<lambda>p t. if p = ''([0-9'' then Inl RegexError else rx chassis_page p t),
        live := Some \<lparr>comments_text = Inl WebDriverError,
                       elements_text = (\<lambda>sel. Inr [Inl WebDriverError])\<rparr>\<rparr>"

definition comment_rule :: rule where
  "comment_rule = \<lparr>rtype = Some ''comment_search'', patterns = Some [''([0-9,]+) miles''],
                    transform = None, selector = Some ''.comment'', regex = None\<rparr>"

definition broken_rule :: rule where
  "broken_rule = \<lparr>rtype = Some ''listing_detail'', patterns = Some [''([0-9''],
                   transform = None, selector = None, regex = None\<rparr>"

definition untyped_rule :: rule where
  "untyped_rule = \<lparr>rtype = None, patterns = Some [''([0-9,]+) Miles''],
                    transform = None, selector = None, regex = None\<rparr>"

definition paint_rule :: color_rule where
  "paint_rule = \<lparr>exterior_patterns = [''(.+) Paint''], next_is_interior = True,
                  interior_keywords = [''leather''], skip_keywords = [''paint'']\<rparr>"

definition leather_rule :: color_rule where
  "leather_rule = \<lparr>exterior_patterns = [], next_is_interior = False,
                    interior_keywords = [''leather''], skip_keywords = []\<rparr>"

definition sample_listing :: "string \<Rightarrow> listing" where
  "sample_listing lot =
     \<lparr>url = ''https://bringatrailer.com/listing/'' @ lot,
      source = ''bringatrailer'',
      title = ''2003 BMW M3 Coupe 6-Speed'',
      lot_number = Some lot,
      seller = Some ''bimmerfan'',
      seller_type = Some ''Private Party'',
      result = Some ''Reserve Not Met'',
      high_bidder = None,
      price = None,
      sale_date = None,
      number_of_bids = Some 31,
      vin = Some ''WBSBL93498CY13754'',
      year = Some 2003,
      car_make = Some ''BMW'',
      model = Some ''M3'',
      variant = Some ''Coupe'',
      convertible = False,
      engine = Some ''3.2-Liter S54 Inline-Six'',
      transmission = Some ''Six-Speed Manual Transmission'',
      exterior_color = Some ''Carbon Black Metallic'',
      interior_color = Some ''Cinnamon Nappa Leather'',
      mileage = Some 45000,
      location = Some ''Austin, Texas 78701'',
      country = Some ''USA'',
      listing_details = [''45,000 Miles Shown''],
      excerpt = []\<rparr>"

definition sample_config :: scrape_config where
  "sample_config =
     \<lparr>slugs = [''bmw/e46-m3''],
      config_make = ''BMW'',
      model_full = ''E46 M3'',
      model_short = ''M3'',
      min_year = Some 2001,
      max_year = Some 2006,
      max_listings = 100,
      max_clicks = 48,
      headless = False,
      sort_oldest = False,
      append_file = Some ''data/m3.json'',
      config_fields = None\<rparr>"

definition visited :: "listing \<Rightarrow> visit" where
  "visited l = \<lparr>extracted = Inr l, back_raises = False\<rparr>"

text \<open>A visit that extracts the listing and on which \<^verbatim>\<open>browser.back()\<close> raises.\<close>

definition failing_back :: "listing \<Rightarrow> visit" where
  "failing_back l = \<lparr>extracted = Inr l, back_raises = True\<rparr>"

text \<open>A prior output file holding one record, with lot number 1234.\<close>

definition prior_file :: "dict list" where
  "prior_file = [to_dict (sample_listing ''1234'')]"

definition error_reveal :: reveal where
  "error_reveal =
     \<lparr>script_keys = Inr [''error''], listings_before = 24, listings_after = (\<lambda>k. 24)\<rparr>"

definition growing_reveal :: reveal where
  "growing_reveal =
     \<lparr>script_keys = Inr [''success''], listings_before = 24, listings_after = (\<lambda>k. 48)\<rparr>"

definition empty_reveal :: reveal where
  "empty_reveal =
     \<lparr>script_keys = Inr [], listings_before = 24, listings_after = (\<lambda>k. 24)\<rparr>"

definition error_reveals :: "nat \<Rightarrow> reveal" where
  "error_reveals i = error_reveal"

definition growing_reveals :: "nat \<Rightarrow> reveal" where
  "growing_reveals i = growing_reveal"

definition empty_reveals :: "nat \<Rightarrow> reveal" where
  "empty_reveals i = empty_reveal"


text \<open>The title \<^verbatim>\<open>Gro\<ss>er Spa\<ss>: 2003 BMW M3 CSL\<close>.\<close>

definition sharp_s_title :: string where
  "sharp_s_title = ''Gro'' @ [CHR 0xDF] @ ''er Spa'' @ [CHR 0xDF] @ '': 2003 BMW M3 CSL''"

definition slow_draws :: draws where
  "slow_draws =
     \<lparr>base_delay = 2, period = 10, long_pause = 8, coin = 1 / 2, quick_delay = 3 / 4\<rparr>"

section \<open>Results\<close>

subsection \<open>Field extraction\<close>

lemmas number_defs = apply_transform_def remove_commas_def py_int_def py_float_def num_strip_def
  is_num_space_def split_sign_def split_first_def parse_mantissa_def is_digit_def in_range_def
  digit_val_def py_lower_def lower_char_def capitals_def smalls_def py_in_def count_digits_def

lemmas vin_defs = validate_vin_def re_match_def VIN_PATTERN_def vin_class_def in_range_def

text \<open>
  In each of the three extractors that walk their rule list, the rules that yield nothing
  the extractor accepts are passed over, and the first rule that yields an accepted value,
  or that raises, decides the result.
\<close>

lemma mileage_extract_first:
  "\<forall>q\<in>set pre. mileage_rule pg q = Inr None \<Longrightarrow> mileage_rule pg r = Inr (Some m) \<Longrightarrow>
   mileage_extract pg (pre @ r # post) = Inr (Some m)"
  by (induction pre) auto

lemma mileage_extract_raises:
  "\<forall>q\<in>set pre. mileage_rule pg q = Inr None \<Longrightarrow> mileage_rule pg r = Inl e \<Longrightarrow>
   mileage_extract pg (pre @ r # post) = Inl e"
  by (induction pre) auto

lemma transmission_extract_first:
  "\<forall>q\<in>set pre. \<exists>c. transmission_rule pg q = Inr c \<and> \<not> truthy c \<Longrightarrow>
   transmission_rule pg r = Inr c \<Longrightarrow> truthy c \<Longrightarrow>
   transmission_extract pg (pre @ r # post) = Inr c"
  by (induction pre) auto

lemma transmission_extract_raises:
  "\<forall>q\<in>set pre. \<exists>c. transmission_rule pg q = Inr c \<and> \<not> truthy c \<Longrightarrow>
   transmission_rule pg r = Inl e \<Longrightarrow>
   transmission_extract pg (pre @ r # post) = Inl e"
  by (induction pre) auto

lemma vin_extract_first:
  "\<forall>q\<in>set pre. \<exists>c. vin_rule pg q = Inr c \<and> \<not> vin_accepted c \<Longrightarrow>
   vin_rule pg r = Inr c \<Longrightarrow> vin_accepted c \<Longrightarrow>
   vin_extract pg (pre @ r # post) = Inr c"
  by (induction pre) auto

lemma vin_extract_raises:
  "\<forall>q\<in>set pre. \<exists>c. vin_rule pg q = Inr c \<and> \<not> vin_accepted c \<Longrightarrow>
   vin_rule pg r = Inl e \<Longrightarrow>
   vin_extract pg (pre @ r # post) = Inl e"
  by (induction pre) auto

text \<open>When no rule yields an accepted value and none raises, the result is \<^verbatim>\<open>None\<close>.\<close>

lemma mileage_extract_none:
  "\<forall>q\<in>set rs. mileage_rule pg q = Inr None \<Longrightarrow> mileage_extract pg rs = Inr None"
  by (induction rs) auto

lemma transmission_extract_none:
  "\<forall>q\<in>set rs. \<exists>c. transmission_rule pg q = Inr c \<and> \<not> truthy c \<Longrightarrow>
   transmission_extract pg rs = Inr None"
  by (induction rs) auto

lemma vin_extract_none:
  "\<forall>q\<in>set rs. \<exists>c. vin_rule pg q = Inr c \<and> \<not> vin_accepted c \<Longrightarrow>
   vin_extract pg rs = Inr None"
  by (induction rs) auto

lemma color_extract_first_rule: "color_extract pg (cr # crs) = color_extract pg [cr]"
  by (simp add: color_extract_def)

text \<open>What the rules of the sample page yield.\<close>

lemma label_rule_candidate: "vin_rule chassis_page label_rule = Inr (Some ''Chassis'')"
  by code_simp

lemma chassis_rule_candidate:
  "vin_rule chassis_page chassis_rule = Inr (Some ''WBSBL93498CY13754'')"
  by code_simp

lemma label_not_a_vin: "\<not> validate_vin ''Chassis''"
  by (simp add: vin_defs)

lemma chassis_is_a_vin: "validate_vin ''WBSBL93498CY13754''"
  by (simp add: vin_defs)

lemma detail_rule_mileage: "mileage_rule chassis_page detail_rule = Inr (Some (VInt 45000))"
  by code_simp

lemma title_rule_mileage: "mileage_rule chassis_page title_rule = Inr (Some (VInt 46000))"
  by code_simp

lemma unit_rule_raises: "mileage_rule chassis_page unit_rule = Inl ValueError"
  by code_simp

lemma automatic_rule_empty: "transmission_rule chassis_page automatic_rule = Inr (Some [])"
  by code_simp

lemma gearbox_rule_transmission:
  "transmission_rule chassis_page gearbox_rule = Inr (Some ''Six-Speed Manual Transmission'')"
  by code_simp

lemma paint_rule_colors:
  "color_extract chassis_page [paint_rule] =
     Inr (Some ''Carbon Black Metallic'', Some ''Cinnamon Nappa Leather Upholstery'')"
  by code_simp

lemma leather_rule_colors:
  "color_extract chassis_page [leather_rule] =
     Inr (None, Some ''Cinnamon Nappa Leather Upholstery'')"
  by code_simp

text \<open>
  A comment search absorbs the failure of the driver and yields nothing, so the next rule is
  consulted; a pattern that does not compile and a rule without \<^verbatim>\<open>type\<close> raise.
\<close>

lemma comment_search_absorbs:
  "mileage_rule live_page comment_rule = Inr None \<and>
   vin_rule live_page comment_rule = Inr None \<and>
   mileage_extract live_page [comment_rule, detail_rule] = Inr (Some (VInt 45000)) \<and>
   mileage_extract live_page [comment_rule, broken_rule, detail_rule] = Inl RegexError \<and>
   transmission_extract live_page [broken_rule, gearbox_rule] = Inl RegexError \<and>
   mileage_extract live_page [untyped_rule, detail_rule] = Inl KeyError \<and>
   vin_extract live_page [untyped_rule, chassis_rule] = Inl KeyError"
  by code_simp

text \<open>
  C1 (as amended). The mileage, transmission and VIN extractors walk their rules in
  declaration order. A rule is passed over when it yields nothing the extractor accepts:
  \<^verbatim>\<open>None\<close> for the mileage, \<^verbatim>\<open>None\<close> or an empty text for the transmission, \<^verbatim>\<open>None\<close>, an empty
  text or a text that fails the VIN validation for the VIN. The extracted value is the one of
  the earliest rule whose value is accepted, provided no rule before it raises; a rule that
  raises before any value was accepted ends the extraction with its exception. In both cases
  the rules after it are not consulted: the result is the same whatever follows. The colour
  extractor reads the first rule of its list only.
\<close>

theorem first_accepted_rule_wins:
  "((\<forall>q\<in>set pre. mileage_rule pg q = Inr None) \<longrightarrow>
      (mileage_rule pg r = Inr (Some m) \<longrightarrow>
         mileage_extract pg (pre @ r # post) = Inr (Some m)) \<and>
      (mileage_rule pg r = Inl e \<longrightarrow> mileage_extract pg (pre @ r # post) = Inl e)) \<and>
   ((\<forall>q\<in>set pre. \<exists>c. transmission_rule pg q = Inr c \<and> \<not> truthy c) \<longrightarrow>
      (transmission_rule pg r = Inr t \<and> truthy t \<longrightarrow>
         transmission_extract pg (pre @ r # post) = Inr t) \<and>
      (transmission_rule pg r = Inl e \<longrightarrow>
         transmission_extract pg (pre @ r # post) = Inl e)) \<and>
   ((\<forall>q\<in>set pre. \<exists>c. vin_rule pg q = Inr c \<and> \<not> vin_accepted c) \<longrightarrow>
      (vin_rule pg r = Inr v \<and> vin_accepted v \<longrightarrow> vin_extract pg (pre @ r # post) = Inr v) \<and>
      (vin_rule pg r = Inl e \<longrightarrow> vin_extract pg (pre @ r # post) = Inl e)) \<and>
   color_extract pg (cr # crs) = color_extract pg [cr]"
  using mileage_extract_first [of pre pg r m post] mileage_extract_raises [of pre pg r e post]
    transmission_extract_first [of pre pg r t post]
    transmission_extract_raises [of pre pg r e post]
    vin_extract_first [of pre pg r v post] vin_extract_raises [of pre pg r e post]
    color_extract_first_rule [of pg cr crs]
  by blast

theorem first_accepted_rule_wins_witness:
  "mileage_rule chassis_page detail_rule = Inr (Some (VInt 45000)) \<and>
   mileage_rule chassis_page title_rule = Inr (Some (VInt 46000)) \<and>
   mileage_extract chassis_page [detail_rule, title_rule, unit_rule] = Inr (Some (VInt 45000)) \<and>
   mileage_rule chassis_page unit_rule = Inl ValueError \<and>
   mileage_extract chassis_page [unit_rule, detail_rule] = Inl ValueError \<and>
   transmission_rule chassis_page automatic_rule = Inr (Some []) \<and>
   transmission_rule chassis_page gearbox_rule = Inr (Some ''Six-Speed Manual Transmission'') \<and>
   transmission_extract chassis_page [automatic_rule, gearbox_rule, automatic_rule] =
     Inr (Some ''Six-Speed Manual Transmission'') \<and>
   vin_rule chassis_page label_rule = Inr (Some ''Chassis'') \<and>
   \<not> vin_accepted (Some ''Chassis'') \<and>
   vin_rule chassis_page chassis_rule = Inr (Some ''WBSBL93498CY13754'') \<and>
   vin_accepted (Some ''WBSBL93498CY13754'') \<and>
   vin_extract chassis_page [label_rule, chassis_rule, label_rule] =
     Inr (Some ''WBSBL93498CY13754'') \<and>
   color_extract chassis_page [paint_rule, leather_rule] =
     Inr (Some ''Carbon Black Metallic'', Some ''Cinnamon Nappa Leather Upholstery'')"
  using
    first_accepted_rule_wins [of "[]" chassis_page detail_rule "VInt 45000"
      "[title_rule, unit_rule]" ValueError "Some ''Six-Speed Manual Transmission''"
      "Some ''WBSBL93498CY13754''" paint_rule "[leather_rule]"]
    first_accepted_rule_wins [of "[]" chassis_page unit_rule "VInt 45000"
      "[detail_rule]" ValueError "Some ''Six-Speed Manual Transmission''"
      "Some ''WBSBL93498CY13754''" paint_rule "[leather_rule]"]
    first_accepted_rule_wins [of "[automatic_rule]" chassis_page gearbox_rule "VInt 45000"
      "[automatic_rule]" ValueError "Some ''Six-Speed Manual Transmission''"
      "Some ''WBSBL93498CY13754''" paint_rule "[leather_rule]"]
    first_accepted_rule_wins [of "[label_rule]" chassis_page chassis_rule "VInt 45000"
      "[label_rule]" ValueError "Some ''Six-Speed Manual Transmission''"
      "Some ''WBSBL93498CY13754''" paint_rule "[leather_rule]"]
  by (simp add: detail_rule_mileage title_rule_mileage unit_rule_raises automatic_rule_empty
      gearbox_rule_transmission label_rule_candidate chassis_rule_candidate label_not_a_vin
      chassis_is_a_vin vin_accepted_def truthy_def paint_rule_colors)

text \<open>
  C1 as stated fails in three ways. On the sample page the VIN rules \<open>label_rule\<close> and
  \<open>chassis_rule\<close> both produce a value, and the extracted VIN is the one of the second rule,
  consulted after the first rule matched. The transmission rules \<open>automatic_rule\<close> and
  \<open>gearbox_rule\<close> both match, and the extracted transmission is that of the second. The
  mileage rules \<open>detail_rule\<close> and \<open>title_rule\<close> both produce a value, yet with the raising
  \<open>unit_rule\<close> declared before them the extraction produces none.
\<close>

theorem vin_later_rule_consulted:
  "vin_rule chassis_page label_rule = Inr (Some ''Chassis'') \<and>
   vin_rule chassis_page chassis_rule = Inr (Some ''WBSBL93498CY13754'') \<and>
   vin_extract chassis_page [label_rule, chassis_rule] = Inr (Some ''WBSBL93498CY13754'') \<and>
   transmission_rule chassis_page automatic_rule = Inr (Some []) \<and>
   transmission_rule chassis_page gearbox_rule = Inr (Some ''Six-Speed Manual Transmission'') \<and>
   transmission_extract chassis_page [automatic_rule, gearbox_rule] =
     Inr (Some ''Six-Speed Manual Transmission'') \<and>
   mileage_rule chassis_page detail_rule = Inr (Some (VInt 45000)) \<and>
   mileage_rule chassis_page title_rule = Inr (Some (VInt 46000)) \<and>
   mileage_extract chassis_page [unit_rule, detail_rule, title_rule] = Inl ValueError"
  by (simp add: detail_rule_mileage title_rule_mileage unit_rule_raises automatic_rule_empty
      gearbox_rule_transmission label_rule_candidate chassis_rule_candidate label_not_a_vin
      chassis_is_a_vin vin_accepted_def truthy_def)

lemma drop_singleton_iff: "drop n v = [c] \<longleftrightarrow> length v = Suc n \<and> v ! n = c"
proof
  assume h: "drop n v = [c]"
  then have "length (drop n v) = 1" by simp
  then have l: "length v = Suc n" by simp
  then have "v ! n # drop (Suc n) v = drop n v" by (intro Cons_nth_drop_Suc) simp
  with h show "length v = Suc n \<and> v ! n = c" using l by simp
next
  assume h: "length v = Suc n \<and> v ! n = c"
  then have "v ! n # drop (Suc n) v = drop n v" by (intro Cons_nth_drop_Suc) simp
  with h show "drop n v = [c]" by simp
qed

text \<open>What \<open>validate_vin\<close> accepts: 17 characters of the class, optionally followed by a newline.\<close>

lemma validate_vin_iff:
  "validate_vin v \<longleftrightarrow>
     (length v = 17 \<and> list_all vin_class v) \<or>
     (length v = 18 \<and> list_all vin_class (take 17 v) \<and> v ! 17 = CHR 0x0A)"
  unfolding validate_vin_def re_match_def VIN_PATTERN_def
  by (auto simp: drop_singleton_iff)

text \<open>
  C2. The validation accepts a string of 18 characters: a VIN followed by a newline, because
  \<^verbatim>\<open>$\<close> also matches just before a final newline. (Strings of 17 characters of the class are
  accepted, and a string with \<open>I\<close>, \<open>O\<close> or \<open>Q\<close> among its first 17 characters is rejected.)
\<close>

theorem validate_vin_trailing_newline:
  "validate_vin (''WBSBL93498CY13754'' @ [CHR 0x0A]) \<and>
   length (''WBSBL93498CY13754'' @ [CHR 0x0A]) = 18"
  by (simp add: vin_defs)

text \<open>
  A string with a \<open>k\<close> or \<open>K\<close> in it is no float literal, so the branch of \<^verbatim>\<open>handle_k_miles\<close>
  for a \<open>k\<close> suffix raises on every input that reaches it.
\<close>

lemma lower_char_k: "lower_char c = CHR ''k'' \<Longrightarrow> c = CHR ''k'' \<or> c = CHR ''K''"
  by (simp add: lower_char_def capitals_def smalls_def split: if_splits)

lemma py_in_single: "py_in [x] s \<longleftrightarrow> x \<in> set s"
  unfolding py_in_def by (induction s) auto

lemma dec_digits_chars:
  "dec_digits b acc s = Some n \<Longrightarrow> c \<in> set s \<Longrightarrow> is_digit c \<or> c = CHR ''_''"
  by (induction b acc s rule: dec_digits.induct) (auto split: if_splits)

lemma split_first_None: "split_first P s = (a, None) \<Longrightarrow> s = a"
proof -
  assume h: "split_first P s = (a, None)"
  then have a: "a = takeWhile (\<lambda>c. \<not> P c) s" and d: "dropWhile (\<lambda>c. \<not> P c) s = []"
    by (auto simp: split_first_def split: list.splits)
  from d have "takeWhile (\<lambda>c. \<not> P c) s = s" by simp
  with a show ?thesis by simp
qed

lemma split_first_Some:
  assumes "split_first P s = (a, Some r)"
  shows "\<exists>x. P x \<and> s = a @ x # r"
proof -
  from assms obtain x where a: "a = takeWhile (\<lambda>c. \<not> P c) s"
    and d: "dropWhile (\<lambda>c. \<not> P c) s = x # r"
    by (auto simp: split_first_def split: list.splits)
  from d have "P x" using hd_dropWhile[of "\<lambda>c. \<not> P c" s] by auto
  moreover have "s = a @ x # r" using a d takeWhile_dropWhile_id[of "\<lambda>c. \<not> P c" s] by simp
  ultimately show ?thesis by blast
qed

lemma parse_mantissa_chars:
  assumes "parse_mantissa m = Some q" "c \<in> set m"
  shows "is_digit c \<or> c = CHR ''_'' \<or> c = CHR ''.''"
proof (cases "split_first (\<lambda>c. c = CHR ''.'') m")
  case (Pair ip fpo)
  show ?thesis
  proof (cases fpo)
    case None
    with Pair have "m = ip" by (auto dest: split_first_None)
    moreover from assms(1) Pair None obtain n where "dec_digits False 0 ip = Some n"
      by (auto simp: parse_mantissa_def)
    ultimately show ?thesis using assms(2) dec_digits_chars by blast
  next
    case (Some fp)
    with Pair have m: "m = ip @ CHR ''.'' # fp" using split_first_Some[of _ m ip fp] by auto
    have ip: "c \<in> set ip \<Longrightarrow> is_digit c \<or> c = CHR ''_''"
      using assms(1) Pair Some dec_digits_chars[of False 0 ip]
      by (auto simp: parse_mantissa_def split: if_splits option.splits)
    have fp: "c \<in> set fp \<Longrightarrow> is_digit c \<or> c = CHR ''_''"
      using assms(1) Pair Some dec_digits_chars[of False 0 fp]
      by (auto simp: parse_mantissa_def split: if_splits option.splits)
    from assms(2) m ip fp show ?thesis by auto
  qed
qed

lemma split_sign_chars: "split_sign s = (b, r) \<Longrightarrow> c \<in> set s \<Longrightarrow> c \<in> set r \<or> c = CHR ''-'' \<or> c = CHR ''+''"
  by (auto simp: split_sign_def split: list.splits if_splits)

lemma parse_exponent_chars:
  assumes "parse_exponent e = Some k" "c \<in> set e"
  shows "is_digit c \<or> c = CHR ''_'' \<or> c = CHR ''-'' \<or> c = CHR ''+''"
proof (cases "split_sign e")
  case (Pair b r)
  with assms(1) obtain n where "dec_digits False 0 r = Some n"
    by (auto simp: parse_exponent_def)
  with split_sign_chars[OF Pair assms(2)] dec_digits_chars show ?thesis by blast
qed

lemma num_strip_keeps: "c \<in> set s \<Longrightarrow> \<not> is_num_space c \<Longrightarrow> c \<in> set (num_strip s)"
proof -
  assume c: "c \<in> set s" "\<not> is_num_space c"
  have keep: "c \<in> set xs \<Longrightarrow> c \<in> set (dropWhile is_num_space xs)" for xs
    using c(2) by (induction xs) auto
  from c(1) have "c \<in> set (rev (dropWhile is_num_space s))" using keep by simp
  then have "c \<in> set (dropWhile is_num_space (rev (dropWhile is_num_space s)))" by (rule keep)
  then show ?thesis by (simp add: num_strip_def)
qed

lemma k_is_plain:
  assumes "c = CHR ''k'' \<or> c = CHR ''K''"
  shows "\<not> is_digit c \<and> \<not> is_num_space c \<and> c \<noteq> CHR ''_'' \<and> c \<noteq> CHR ''.'' \<and> c \<noteq> CHR ''-'' \<and>
    c \<noteq> CHR ''+'' \<and> c \<noteq> CHR ''e'' \<and> c \<noteq> CHR ''E'' \<and> c \<noteq> CHR '','' \<and> lower_char c = CHR ''k''"
  using assms
proof
  assume "c = CHR ''k''"
  then show ?thesis
    by (simp add: is_digit_def in_range_def is_num_space_def lower_char_def capitals_def
        smalls_def)
next
  assume "c = CHR ''K''"
  then show ?thesis
    by (simp add: is_digit_def in_range_def is_num_space_def lower_char_def capitals_def
        smalls_def)
qed

lemma py_float_literal:
  assumes sb: "split_sign (num_strip s) = (neg, body)"
    and low: "py_lower body \<noteq> ''inf''" "py_lower body \<noteq> ''infinity''" "py_lower body \<noteq> ''nan''"
    and sf: "split_first (\<lambda>c. c = CHR ''e'' \<or> c = CHR ''E'') body = (m, eo)"
  shows "py_float s =
     (case eo of
        None \<Rightarrow> (case parse_mantissa m of None \<Rightarrow> Inl ValueError
                  | Some q \<Rightarrow> Inr (round_binary64 (if neg then - q else q)))
      | Some e \<Rightarrow> (case (parse_mantissa m, parse_exponent e) of
                  (Some q, Some k) \<Rightarrow> Inr (round_binary64 (scale10 (if neg then - q else q) k))
                | _ \<Rightarrow> Inl ValueError))"
  unfolding py_float_def sb using low sf by (simp split: option.splits)

lemma py_float_rejects_k:
  assumes "c \<in> set s" "c = CHR ''k'' \<or> c = CHR ''K''"
  shows "py_float s = Inl ValueError"
proof -
  note nd = k_is_plain [OF assms(2)]
  obtain neg body where sb: "split_sign (num_strip s) = (neg, body)"
    by (cases "split_sign (num_strip s)")
  have "c \<in> set (num_strip s)" using assms(1) nd by (intro num_strip_keeps) simp_all
  with split_sign_chars [OF sb] nd have cb: "c \<in> set body" by blast
  have "lower_char c \<in> set (py_lower body)" using cb by (simp add: py_lower_def)
  then have kb: "CHR ''k'' \<in> set (py_lower body)" using nd by simp
  have differs: "py_lower body \<noteq> w" if "CHR ''k'' \<notin> set w" for w
    using that kb by blast
  have low: "py_lower body \<noteq> ''inf''" "py_lower body \<noteq> ''infinity''"
    "py_lower body \<noteq> ''nan''"
    by (rule differs, simp)+
  obtain m eo where sf: "split_first (\<lambda>c. c = CHR ''e'' \<or> c = CHR ''E'') body = (m, eo)"
    by (cases "split_first (\<lambda>c. c = CHR ''e'' \<or> c = CHR ''E'') body")
  note lit = py_float_literal [OF sb low sf]
  have mant: "c \<in> set m \<Longrightarrow> parse_mantissa m = None"
  proof (cases "parse_mantissa m")
    case None
    then show ?thesis .
  next
    case (Some q)
    assume "c \<in> set m"
    with parse_mantissa_chars [OF Some] nd show ?thesis by blast
  qed
  show ?thesis
  proof (cases eo)
    case None
    with sf have "body = m" by (auto dest: split_first_None)
    with cb mant have "parse_mantissa m = None" by simp
    with lit None show ?thesis by simp
  next
    case (Some e)
    with sf obtain x where b: "body = m @ x # e" and x: "x = CHR ''e'' \<or> x = CHR ''E''"
      using split_first_Some [of _ body m e] by blast
    from cb b have "c \<in> set m \<or> c = x \<or> c \<in> set e" by auto
    with x nd have "c \<in> set m \<or> c \<in> set e" by blast
    then show ?thesis
    proof
      assume "c \<in> set m"
      then have "parse_mantissa m = None" by (rule mant)
      with lit Some show ?thesis by simp
    next
      assume ce: "c \<in> set e"
      have "parse_exponent e = None"
      proof (cases "parse_exponent e")
        case None
        then show ?thesis .
      next
        case (Some k)
        with parse_exponent_chars [OF Some ce] nd show ?thesis by blast
      qed
      with lit Some show ?thesis by (simp split: option.splits)
    qed
  qed
qed

lemma handle_k_miles_always_raises:
  assumes "py_in ''k'' (py_lower v)"
  shows "apply_transform v ''handle_k_miles'' = Inl ValueError"
proof -
  from assms have "CHR ''k'' \<in> set (py_lower v)" by (simp add: py_in_single)
  then obtain c where c: "c \<in> set v" "lower_char c = CHR ''k''" by (auto simp: py_lower_def)
  then have ck: "c = CHR ''k'' \<or> c = CHR ''K''" using lower_char_k by blast
  then have "c \<noteq> CHR '',''" using k_is_plain by blast
  with c(1) have "c \<in> set (remove_commas v)" by (simp add: remove_commas_def)
  then have "py_float (remove_commas v) = Inl ValueError" using ck by (rule py_float_rejects_k)
  with assms show ?thesis by (simp add: apply_transform_def)
qed

text \<open>
  C5. \<^verbatim>\<open>handle_k_miles\<close> on \<^verbatim>\<open>"12,345"\<close> gives the integer 12345, but on \<^verbatim>\<open>"45.5k"\<close> the
  branch for a \<open>k\<close> suffix passes the string, \<open>k\<close> included, to \<^verbatim>\<open>float\<close>, which raises
  \<^verbatim>\<open>ValueError\<close>: the value 45500 is never produced.
\<close>

theorem handle_k_miles_examples:
  "apply_transform ''45.5k'' ''handle_k_miles'' = Inl ValueError \<and>
   apply_transform ''12,345'' ''handle_k_miles'' = Inr (VInt 12345)"
  by (simp add: number_defs)

subsection \<open>Listing loader\<close>








text \<open>While every result lacks the three keys and clicks remain, the loop never returns.\<close>

lemma loader_loop_spins:
  assumes run: "loader_loop budget evs i s = Some s'"
    and unrec: "\<forall>j. \<not> recognised (evs j)" and below: "clicks s < budget"
  shows False
proof -
  let ?P = "\<lambda>budget (evs :: nat \<Rightarrow> reveal) (i :: nat) s (s' :: loader_state).
     (\<forall>j. \<not> recognised (evs j)) \<longrightarrow> clicks s < budget \<longrightarrow> False"
  have "?P budget evs i s s'"
  proof (rule loader_loop.raw_induct[where P = ?P, OF _ run], intro impI)
    fix f budget evs i s s'
    assume IH: "\<And>budget evs i s y. f budget evs i s = Some y \<Longrightarrow> ?P budget evs i s y"
      and body: "(if clicks s < budget
           then case loader_step (evs i) s of Break s' \<Rightarrow> Some s'
                | Continue s' \<Rightarrow> f budget evs (Suc i) s'
           else Some s) = Some s'"
      and u: "\<forall>j. \<not> recognised (evs j)" and b: "clicks s < budget"
    from u have "\<not> recognised (evs i)" by simp
    then have "loader_step (evs i) s = Continue s"
      by (auto simp: recognised_def loader_step_def split: sum.splits)
    with body b have "f budget evs (Suc i) s = Some s'" by simp
    from IH[OF this] u b show False by simp
  qed
  with unrec below show False by simp
qed






lemma loader_loop_exhausted:
  assumes "clicks s < budget"
    and "script_keys (evs i) = Inr ks" "''done'' \<in> set ks" "''reason'' \<in> set ks"
  shows "loader_loop budget evs i s = Some s"
  using assms
  by (subst loader_loop.simps) (auto simp: loader_step_def Let_def)


lemma growing_step:
  "loader_step growing_reveal s =
     Continue (s\<lparr>clicks := clicks s + 1, consecutive_failures := 0\<rparr>)"
proof -
  have "growth_seen growing_reveal"
    by (auto simp: growing_reveal_def growth_seen_def list_ex_iff intro: exI[of _ 0])
  then show ?thesis by (simp add: loader_step_def growing_reveal_def Let_def)
qed

text \<open>Two failures in a row end the loop with no click made, whatever the budget left.\<close>

lemma two_errors_halt:
  "load_all_listings 48 error_reveals = Some \<lparr>clicks = 0, consecutive_failures = 2\<rparr>"
  unfolding load_all_listings_def
  apply (subst loader_loop.simps)
  apply (simp add: loader_step_def error_reveals_def error_reveal_def count_failure_def)
  apply (subst loader_loop.simps)
  apply (simp add: loader_step_def error_reveals_def error_reveal_def count_failure_def)
  done

text \<open>Clicks that always reveal more cards end the loop at the budget.\<close>

lemma budget_halt:
  "load_all_listings 3 growing_reveals = Some \<lparr>clicks = 3, consecutive_failures = 0\<rparr>"
  unfolding load_all_listings_def
  apply (subst loader_loop.simps, simp add: growing_step growing_reveals_def)
  apply (subst loader_loop.simps, simp add: growing_step growing_reveals_def)
  apply (subst loader_loop.simps, simp add: growing_step growing_reveals_def)
  apply (subst loader_loop.simps, simp add: growing_step growing_reveals_def)
  done


text \<open>
  The results the loop acts on are the outcomes of the reveal action: an exception, or a
  dictionary with one of the keys \<^verbatim>\<open>done\<close>, \<^verbatim>\<open>error\<close>, \<^verbatim>\<open>success\<close>. A script that returns a
  dictionary with none of them, with clicks left, keeps the loop running for ever.
\<close>

lemma unrecognised_result_spins: "load_all_listings 1 empty_reveals = None"
proof (cases "load_all_listings 1 empty_reveals")
  case None
  then show ?thesis .
next
  case (Some r)
  then have "loader_loop 1 empty_reveals 0 \<lparr>clicks = 0, consecutive_failures = 0\<rparr> = Some r"
    by (simp add: load_all_listings_def)
  from loader_loop_spins[OF this] show ?thesis
    by (simp add: recognised_def empty_reveals_def empty_reveal_def)
qed



subsection \<open>Scraping pipeline\<close>

lemma load_existing_no_na:
  "''N/A'' \<notin> acc \<Longrightarrow> ''N/A'' \<notin> load_existing_lot_numbers items acc"
  by (induction items acc rule: load_existing_lot_numbers.induct)
     (auto split: option.splits json.splits)

lemma json_storage_no_na: "\<not> storage_exists (json_storage prior) ''N/A''"
  using load_existing_no_na[of "{}"]
  by (auto simp: storage_exists_def json_storage_def split: option.splits)

text \<open>
  A duplicate at which \<^verbatim>\<open>browser.back()\<close> returns ends the loop: what follows is not scraped,
  and the result is the list of the listings accepted before it, in order, when no earlier
  visit was a duplicate.
\<close>

lemma scrape_listings_stop:
  assumes "extracted v = Inr l" "listing_verdict cfg st l = Duplicate" "\<not> back_raises v"
  shows "scrape_listings cfg st (pre @ v # post) acc = scrape_listings cfg st pre acc"
  using assms
  by (induction pre arbitrary: acc) (auto split: sum.splits verdict.splits)

lemma scrape_listings_accepted:
  assumes "\<forall>u\<in>set vs. \<forall>k. extracted u = Inr k \<longrightarrow> listing_verdict cfg st k \<noteq> Duplicate"
  shows "scrape_listings cfg st vs acc =
     acc @ List.map_filter
       (\<lambda>u. case extracted u of
              Inl e \<Rightarrow> None
            | Inr k \<Rightarrow> if listing_verdict cfg st k = Accepted then Some (kept cfg k) else None)
       vs"
  using assms
proof (induction vs arbitrary: acc)
  case Nil
  show ?case by (simp add: map_filter_simps)
next
  case (Cons v vs)
  then have IH: "\<And>acc. scrape_listings cfg st vs acc =
     acc @ List.map_filter
       (\<lambda>u. case extracted u of
              Inl e \<Rightarrow> None
            | Inr k \<Rightarrow> if listing_verdict cfg st k = Accepted then Some (kept cfg k) else None)
       vs"
    by simp
  show ?case
  proof (cases "extracted v")
    case (Inl e)
    then show ?thesis by (simp add: IH map_filter_simps)
  next
    case (Inr k)
    with Cons.prems have "listing_verdict cfg st k \<noteq> Duplicate" by simp
    with Inr show ?thesis
      by (cases "listing_verdict cfg st k") (simp_all add: IH map_filter_simps)
  qed
qed

lemma duplicate_stops_slug:
  assumes "extracted v = Inr l" "listing_verdict cfg st l = Duplicate" "\<not> back_raises v"
    and "\<forall>u\<in>set pre. \<forall>k. extracted u = Inr k \<longrightarrow> listing_verdict cfg st k \<noteq> Duplicate"
  shows "scrape_listings cfg st (pre @ v # post) [] =
     List.map_filter
       (\<lambda>u. case extracted u of
              Inl e \<Rightarrow> None
            | Inr k \<Rightarrow> if listing_verdict cfg st k = Accepted then Some (kept cfg k) else None)
       pre"
  using scrape_listings_stop[OF assms(1-3), of pre post "[]"]
    scrape_listings_accepted[OF assms(4), of "[]"]
  by simp

lemma is_duplicate_storage:
  assumes "lot_number l = Some lot" "lot \<noteq> []" "storage_exists (json_storage prior) lot"
  shows "is_duplicate (Some (json_storage prior)) l"
  using assms json_storage_no_na[of prior]
  by (auto simp: is_duplicate_def)

lemma prior_storage: "json_storage (Some prior_file) = {''1234''}"
  by (simp add: json_storage_def prior_file_def to_dict_def sample_listing_def or_na_def)

lemma sample_title_plain: "\<not> py_in ''modified'' (py_lower (title (sample_listing lot)))"
  by (simp add: sample_listing_def py_in_def py_lower_def lower_char_def capitals_def
      smalls_def)

lemma sample_verdict:
  "lot \<noteq> [] \<Longrightarrow> lot \<noteq> ''N/A'' \<Longrightarrow>
   listing_verdict sample_config (Some st) (sample_listing lot) =
     (if lot \<in> st then Duplicate else Accepted)"
  using sample_title_plain [of lot]
  by (simp add: listing_verdict_def is_duplicate_def storage_exists_def sample_listing_def
      country_rejected_def truthy_def should_skip_year_def bound_violated_def
      sample_config_def)

lemma sample_kept: "kept sample_config l = l"
  by (simp add: kept_def sample_config_def)

text \<open>
  The run of the spec when \<^verbatim>\<open>browser.back()\<close> returns: the prior file holds lot 1234, the URLs
  yield the lots 999, 1234 and 555, and the result is the listing with lot 999 alone.
\<close>

lemma spec_run_stops:
  "scrape_listings sample_config (Some (json_storage (Some prior_file)))
     [visited (sample_listing ''999''), visited (sample_listing ''1234''),
      visited (sample_listing ''555'')] [] = [sample_listing ''999'']"
  by (simp add: prior_storage sample_verdict visited_def sample_kept)

text \<open>
  When \<^verbatim>\<open>browser.back()\<close> raises at a duplicate, the handler absorbs the exception before the
  \<^verbatim>\<open>return\<close> is reached and the loop goes on with the next URL.
\<close>

lemma duplicate_with_failing_back:
  assumes "extracted v = Inr l" "listing_verdict cfg st l = Duplicate" "back_raises v"
  shows "scrape_listings cfg st (v # vs) acc = scrape_listings cfg st vs acc"
  using assms by simp

text \<open>
  C4. In append mode with lot 1234 in the prior storage, when the URLs yield the lots 999,
  1234 and 555 and \<^verbatim>\<open>browser.back()\<close> raises on the page of lot 1234, the scrape does not stop
  at the duplicate: the listing with lot 555 is produced, and the result holds the lots 999
  and 555. The call of \<^verbatim>\<open>browser.back()\<close> stands between the detection of the duplicate and
  the \<^verbatim>\<open>return\<close>, inside the \<^verbatim>\<open>try\<close> block of the loop.
\<close>

theorem failing_back_resumes_scrape:
  "storage_exists (json_storage (Some prior_file)) ''1234'' \<and>
   lot_number (sample_listing ''1234'') = Some ''1234'' \<and>
   scrape_listings sample_config (Some (json_storage (Some prior_file)))
     [visited (sample_listing ''999''), failing_back (sample_listing ''1234''),
      visited (sample_listing ''555'')] [] =
     [sample_listing ''999'', sample_listing ''555'']"
proof -
  have "lot_number (sample_listing ''1234'') = Some ''1234''"
    by (simp add: sample_listing_def)
  then show ?thesis
    by (simp add: prior_storage storage_exists_def sample_verdict visited_def
        failing_back_def sample_kept)
qed

text \<open>
  C9. A listing whose country is absent is never skipped as non-domestic; the country filter
  skips exactly the listings (not stopped as duplicates) whose country is a non-empty string
  other than \<^verbatim>\<open>USA\<close>.
\<close>

theorem country_filter_keeps_unknown:
  "(country l = None \<longrightarrow> \<not> country_rejected l \<and> listing_verdict cfg st l \<noteq> NonUSA) \<and>
   (listing_verdict cfg st l' = NonUSA \<longleftrightarrow>
      \<not> is_duplicate st l' \<and> (\<exists>c. country l' = Some c \<and> c \<noteq> [] \<and> c \<noteq> ''USA''))"
  by (auto simp: listing_verdict_def country_rejected_def truthy_def
      split: option.splits sum.splits bool.splits if_splits)

theorem country_filter_keeps_unknown_witness:
  "country ((sample_listing ''999'')\<lparr>country := None\<rparr>) = None \<and>
   \<not> country_rejected ((sample_listing ''999'')\<lparr>country := None\<rparr>) \<and>
   listing_verdict sample_config None ((sample_listing ''999'')\<lparr>country := None\<rparr>) = Accepted \<and>
   listing_verdict sample_config None ((sample_listing ''999'')\<lparr>country := Some ''Canada''\<rparr>)
     = NonUSA"
  using country_filter_keeps_unknown [of "(sample_listing ''999'')\<lparr>country := None\<rparr>"
      sample_config None "(sample_listing ''999'')\<lparr>country := Some ''Canada''\<rparr>"]
  by (simp add: listing_verdict_def is_duplicate_def sample_listing_def
      country_rejected_def truthy_def py_in_def py_lower_def lower_char_def capitals_def
      smalls_def should_skip_year_def bound_violated_def sample_config_def)

lemma should_skip_year_None:
  "(\<exists>b. min_year cfg = Some b \<and> b \<noteq> 0) \<or> (\<exists>b. max_year cfg = Some b \<and> b \<noteq> 0) \<Longrightarrow>
   should_skip_year cfg None = Inl TypeError"
  by (auto simp: should_skip_year_def bound_violated_def split: option.splits)

lemma should_skip_year_Some:
  "should_skip_year cfg (Some y) =
     Inr ((\<exists>b. min_year cfg = Some b \<and> b \<noteq> 0 \<and> y < b) \<or>
          (\<exists>b. max_year cfg = Some b \<and> b \<noteq> 0 \<and> b < y))"
  by (auto simp: should_skip_year_def bound_violated_def split: option.splits bool.splits)

text \<open>
  C10 (as amended). \<^verbatim>\<open>should_skip_year\<close> tests a bound for truth before comparing, so a bound
  counts only when it is present and not zero. With such a bound on either side and no year,
  the call raises \<^verbatim>\<open>TypeError\<close>; in the pipeline a listing that reaches the year filter
  without a year is then dropped by the exception handler, its verdict being neither accepted
  nor out of range. With an integer year the call returns whether the year is strictly below
  such a minimum or strictly above such a maximum.
\<close>

theorem should_skip_year_spec:
  "((\<exists>b. min_year cfg = Some b \<and> b \<noteq> 0) \<or> (\<exists>b. max_year cfg = Some b \<and> b \<noteq> 0) \<longrightarrow>
      should_skip_year cfg None = Inl TypeError \<and>
      (extracted v = Inr l \<and> year l = None \<and> \<not> is_duplicate st l \<and> \<not> country_rejected l \<and>
       \<not> py_in ''modified'' (py_lower (title l)) \<longrightarrow>
         listing_verdict cfg st l = Raised TypeError \<and>
         scrape_listings cfg st (v # vs) acc = scrape_listings cfg st vs acc)) \<and>
   should_skip_year cfg' (Some y) =
     Inr ((\<exists>b. min_year cfg' = Some b \<and> b \<noteq> 0 \<and> y < b) \<or>
          (\<exists>b. max_year cfg' = Some b \<and> b \<noteq> 0 \<and> b < y))"
proof (intro conjI impI)
  assume b: "(\<exists>b. min_year cfg = Some b \<and> b \<noteq> 0) \<or> (\<exists>b. max_year cfg = Some b \<and> b \<noteq> 0)"
  then show r: "should_skip_year cfg None = Inl TypeError" by (rule should_skip_year_None)
  assume h: "extracted v = Inr l \<and> year l = None \<and> \<not> is_duplicate st l \<and>
       \<not> country_rejected l \<and> \<not> py_in ''modified'' (py_lower (title l))"
  with r show vd: "listing_verdict cfg st l = Raised TypeError"
    by (simp add: listing_verdict_def)
  with h show "scrape_listings cfg st (v # vs) acc = scrape_listings cfg st vs acc"
    by simp
next
  show "should_skip_year cfg' (Some y) =
     Inr ((\<exists>b. min_year cfg' = Some b \<and> b \<noteq> 0 \<and> y < b) \<or>
          (\<exists>b. max_year cfg' = Some b \<and> b \<noteq> 0 \<and> b < y))"
    by (rule should_skip_year_Some)
qed

theorem should_skip_year_spec_witness:
  "min_year sample_config = Some 2001 \<and>
   should_skip_year sample_config None = Inl TypeError \<and>
   listing_verdict sample_config None ((sample_listing ''999'')\<lparr>year := None\<rparr>)
     = Raised TypeError \<and>
   scrape_listings sample_config None
     [visited ((sample_listing ''999'')\<lparr>year := None\<rparr>), visited (sample_listing ''555'')] []
     = [sample_listing ''555''] \<and>
   should_skip_year sample_config (Some 2000) = Inr True \<and>
   should_skip_year sample_config (Some 2001) = Inr False \<and>
   should_skip_year sample_config (Some 2006) = Inr False \<and>
   should_skip_year sample_config (Some 2007) = Inr True"
proof -
  have m: "min_year sample_config = Some 2001" "max_year sample_config = Some 2006"
    by (simp_all add: sample_config_def)
  have pre: "extracted (visited ((sample_listing ''999'')\<lparr>year := None\<rparr>)) =
        Inr ((sample_listing ''999'')\<lparr>year := None\<rparr>) \<and>
      year ((sample_listing ''999'')\<lparr>year := None\<rparr>) = None \<and>
      \<not> is_duplicate None ((sample_listing ''999'')\<lparr>year := None\<rparr>) \<and>
      \<not> country_rejected ((sample_listing ''999'')\<lparr>year := None\<rparr>) \<and>
      \<not> py_in ''modified'' (py_lower (title ((sample_listing ''999'')\<lparr>year := None\<rparr>)))"
    by (simp add: visited_def is_duplicate_def country_rejected_def truthy_def
        sample_listing_def py_in_def py_lower_def lower_char_def capitals_def smalls_def)
  have rest: "scrape_listings sample_config None [visited (sample_listing ''555'')] [] =
      [sample_listing ''555'']"
    by (simp add: visited_def sample_kept listing_verdict_def is_duplicate_def
        sample_listing_def country_rejected_def truthy_def py_in_def py_lower_def
        lower_char_def capitals_def smalls_def should_skip_year_def bound_violated_def m)
  note spec = should_skip_year_spec [where cfg = sample_config and cfg' = sample_config
      and st = None and l = "(sample_listing ''999'')\<lparr>year := None\<rparr>"
      and v = "visited ((sample_listing ''999'')\<lparr>year := None\<rparr>)"
      and vs = "[visited (sample_listing ''555'')]" and acc = "[]"]
  show ?thesis
    using spec [where y = 2000] spec [where y = 2001] spec [where y = 2006]
      spec [where y = 2007] pre rest m
    by simp
qed

text \<open>
  C10 as stated fails for a bound of zero: it is configured, yet with no year the call returns
  \<open>False\<close> instead of raising, and a year above a maximum of zero is not skipped.
\<close>

theorem zero_bound_ignored:
  "should_skip_year (sample_config\<lparr>min_year := Some 0, max_year := None\<rparr>) None = Inr False \<and>
   should_skip_year (sample_config\<lparr>min_year := None, max_year := Some 0\<rparr>) (Some 2003)
     = Inr False"
  by (simp add: should_skip_year_def bound_violated_def sample_config_def)

subsection \<open>Serialisation\<close>

text \<open>The keys of the flat record, in order.\<close>

lemma to_dict_keys:
  "map fst (to_dict l) =
     [''url'', ''source'', ''lot_number'', ''seller'', ''seller_type'', ''result'',
      ''high_bidder'', ''price'', ''sale_date'', ''number_of_bids'', ''title'', ''vin'', ''year'',
      ''make'', ''model'', ''variant'', ''convertible'', ''engine'', ''transmission'',
      ''exterior_color'', ''interior_color'', ''mileage'', ''location'', ''listing_details'',
      ''excerpt'']"
  by (simp add: to_dict_def)

text \<open>Absent strings are written as the sentinel, absent numbers as null, lists as they are.\<close>

lemma to_dict_sentinels:
  "map_of (to_dict (l\<lparr>seller := None, vin := None, price := None, mileage := None\<rparr>)) ''seller''
     = Some (JStr ''N/A'') \<and>
   map_of (to_dict (l\<lparr>seller := None, vin := None, price := None, mileage := None\<rparr>)) ''vin''
     = Some (JStr ''N/A'') \<and>
   map_of (to_dict (l\<lparr>seller := None, vin := None, price := None, mileage := None\<rparr>)) ''price''
     = Some JNull \<and>
   map_of (to_dict (l\<lparr>seller := None, vin := None, price := None, mileage := None\<rparr>)) ''mileage''
     = Some JNull \<and>
   map_of (to_dict l) ''excerpt'' = Some (JStrList (excerpt l))"
  by (simp add: to_dict_def or_na_def opt_int_def)

text \<open>
  C7. The flat record has no entry for the country of a listing, although \<open>from_dict\<close> reads
  one: serialising a listing and reading it back loses the country.
\<close>

theorem to_dict_omits_country:
  "map_of (to_dict l) ''country'' = None \<and>
   ''country'' \<notin> set (map fst (to_dict l)) \<and>
   country (from_dict (to_dict l)) = None \<and>
   country (sample_listing ''999'') = Some ''USA''"
  by (simp add: to_dict_def from_dict_def get_str_def sample_listing_def)

subsection \<open>Delays\<close>

text \<open>When the call does not fall on a long pause, the delay is at least the minimum.\<close>

lemma get_delay_floor:
  "(action_count s + 1) mod period d \<noteq> 0 \<Longrightarrow> min_delay s \<le> fst (get_delay d s)"
  by (simp add: get_delay_def Let_def)

text \<open>With a minimum of at most 8 seconds every delay is at least the minimum.\<close>

lemma get_delay_small_minimum:
  "draws_in_range d \<Longrightarrow> min_delay s \<le> 8 \<Longrightarrow> min_delay s \<le> fst (get_delay d s)"
  by (auto simp add: get_delay_def Let_def draws_in_range_def)

text \<open>
  C8. With a minimum delay of 20 seconds, the tenth call on a fresh strategy falls on a long
  pause and returns 8 seconds, below the minimum: the long pause is returned before the
  floor is applied.
\<close>

theorem long_pause_below_min_delay:
  "draws_in_range slow_draws \<and>
   get_delays (replicate 10 slow_draws) (new_delay_strategy 20) =
     [20, 20, 20, 20, 20, 20, 20, 20, 20, 8]"
  by code_simp

subsection \<open>Variant name\<close>

lemma py_find_None_iff: "py_find s sub = None \<longleftrightarrow> \<not> sublist sub s"
  by (induction s) (auto simp: sublist_Cons_right)

lemma sublist_py_strip: "sublist (py_strip s) s"
proof -
  have "sublist (py_strip s) (dropWhile is_space s)"
    unfolding py_strip_def by (simp add: sublist_rev_left)
  moreover have "sublist (dropWhile is_space s) s" by simp
  ultimately show ?thesis by (rule sublist_order.order.trans)
qed

lemma sublist_after_match: "sublist (after_match t i name) t"
proof -
  have "sublist (after_match t i name) (drop (i + length name) t)"
    unfolding after_match_def by (rule sublist_py_strip)
  moreover have "sublist (drop (i + length name) t) t" by simp
  ultimately show ?thesis by (rule sublist_order.order.trans)
qed

lemma sublist_py_upper:
  assumes "sublist xs ys"
  shows "sublist (py_upper xs) (py_upper ys)"
proof -
  from assms obtain ps ss where "ys = ps @ xs @ ss" unfolding sublist_def by blast
  then have "py_upper ys = py_upper ps @ py_upper xs @ py_upper ss"
    by (simp add: py_upper_def)
  then show ?thesis unfolding sublist_def by blast
qed

lemma sublist_upper_after_match:
  assumes "sublist m (py_upper (after_match t i name))"
  shows "sublist m (py_upper t)"
proof -
  have "sublist (py_upper (after_match t i name)) (py_upper t)"
    by (rule sublist_py_upper) (rule sublist_after_match)
  with assms show ?thesis by (rule sublist_order.order.trans)
qed

lemma variant_no_make:
  "\<not> sublist (py_upper (config_make cfg)) (py_upper t) \<Longrightarrow> extract_variant t cfg = ''Standard''"
  by (simp add: extract_variant_def py_find_None_iff[symmetric])

lemma variant_no_model:
  assumes "\<not> sublist (py_upper (model_short cfg)) (py_upper t)"
  shows "extract_variant t cfg = ''Standard''"
proof (cases "py_find (py_upper t) (py_upper (config_make cfg))")
  case None
  then show ?thesis by (simp add: extract_variant_def)
next
  case (Some i)
  have "\<not> sublist (py_upper (model_short cfg)) (py_upper (after_match t i (config_make cfg)))"
    using assms sublist_upper_after_match by blast
  then have "py_find (py_upper (after_match t i (config_make cfg))) (py_upper (model_short cfg))
      = None"
    by (simp add: py_find_None_iff)
  with Some show ?thesis by (simp add: extract_variant_def Let_def)
qed

lemma variant_found:
  assumes "py_find (py_upper t) (py_upper (config_make cfg)) = Some i"
    and "py_find (py_upper (after_match t i (config_make cfg))) (py_upper (model_short cfg))
      = Some j"
    and "rest = after_match (after_match t i (config_make cfg)) j (model_short cfg)"
  shows "extract_variant t cfg =
        (if rest = [] \<or> cut_speed rest = [] \<or> starts_with_common_word (cut_speed rest)
         then ''Standard'' else cut_speed rest)"
  using assms by (simp add: extract_variant_def Let_def)

lemma dropWhile_fixed: "xs = [] \<or> \<not> P (hd xs) \<Longrightarrow> dropWhile P xs = xs"
  by (cases xs) auto

lemma dropWhile_head: "dropWhile P xs = [] \<or> \<not> P (hd (dropWhile P xs))"
  by (induction xs) auto

lemma rstrip_keeps_head:
  assumes "xs = [] \<or> \<not> P (hd xs)"
  shows "rev (dropWhile P (rev xs)) = [] \<or> \<not> P (hd (rev (dropWhile P (rev xs))))"
proof (cases xs)
  case Nil
  then show ?thesis by simp
next
  case (Cons x t)
  with assms have nx: "\<not> P x" by simp
  have "rev (dropWhile P (rev (x # t))) = x # rev (dropWhile P (rev t))"
    using nx by (simp add: dropWhile_append)
  with Cons nx show ?thesis by simp
qed

lemma py_strip_idem: "py_strip (py_strip s) = py_strip s"
proof -
  let ?d = "dropWhile is_space s"
  let ?y = "rev (dropWhile is_space (rev ?d))"
  have "?y = [] \<or> \<not> is_space (hd ?y)"
    by (rule rstrip_keeps_head) (rule dropWhile_head)
  then have "dropWhile is_space ?y = ?y" by (rule dropWhile_fixed)
  then show ?thesis by (simp add: py_strip_def)
qed

lemma cut_speed_trimmed: "py_strip (cut_speed r) = cut_speed r"
  by (simp add: cut_speed_def py_strip_idem split: option.splits)

text \<open>The matcher on the pattern \<^verbatim>\<open>\d+-Speed\<close> finds exactly the speed tokens.\<close>

lemma re_here_lits:
  "re_here True (map Lit w) b r \<longleftrightarrow>
     length w \<le> length r \<and> py_lower (take (length w) r) = py_lower w"
  by (induction w arbitrary: b r) (auto simp: py_lower_def split: list.splits)

lemma lower_speed: "py_lower ''-Speed'' = ''-speed''"
  by (simp add: py_lower_def lower_char_def capitals_def smalls_def)

lemma re_here_speed_lits:
  "re_here True (map Lit ''-Speed'') b r \<longleftrightarrow> 6 \<le> length r \<and> py_lower (take 6 r) = ''-speed''"
proof -
  have len: "length ''-Speed'' = 6" by simp
  from re_here_lits[of "''-Speed''" b r] show ?thesis unfolding len lower_speed .
qed

lemma take_within_run:
  "k \<le> length (takeWhile P r) \<Longrightarrow> list_all P (take k r)"
proof (induction r arbitrary: k)
  case Nil
  then show ?case by simp
next
  case (Cons x r)
  then show ?case by (cases k) (auto split: if_splits)
qed

lemma run_covers_prefix:
  "list_all P ds \<Longrightarrow> length ds \<le> length (takeWhile P (ds @ rest))"
  by (induction ds) auto

lemma re_here_Plus:
  "re_here ic (Plus P # r) b s \<longleftrightarrow>
     (\<exists>k. 1 \<le> k \<and> k \<le> length (takeWhile P s) \<and> re_here ic r False (drop k s))"
proof -
  have "set (rev [1..<Suc n]) = {k. 1 \<le> k \<and> k \<le> n}" for n by auto
  then show ?thesis by (simp only: re_here.simps list_ex_iff) blast
qed

lemma re_here_speed: "re_here True speed_pattern b r \<longleftrightarrow> starts_with_speed r"
proof
  assume "re_here True speed_pattern b r"
  then obtain k where k: "1 \<le> k" "k \<le> length (takeWhile is_digit r)"
    and m: "re_here True (map Lit ''-Speed'') False (drop k r)"
    unfolding speed_pattern_def re_here_Plus by blast
  from m have l: "py_lower (take 6 (drop k r)) = ''-speed''"
    unfolding re_here_speed_lits by simp
  have "k \<le> length r" using k(2) length_takeWhile_le[of is_digit r] by simp
  with k(1) have "take k r \<noteq> []" by auto
  moreover have "list_all is_digit (take k r)" using k(2) by (rule take_within_run)
  moreover have "r = take k r @ drop k r" by simp
  ultimately show "starts_with_speed r" using l unfolding starts_with_speed_def by blast
next
  assume "starts_with_speed r"
  then obtain ds rest where d: "ds \<noteq> []" "list_all is_digit ds" "r = ds @ rest"
    and l: "py_lower (take 6 rest) = ''-speed''"
    unfolding starts_with_speed_def by blast
  from l have "length (py_lower (take 6 rest)) = 6" by simp
  then have len: "6 \<le> length rest" by (simp add: py_lower_def)
  have m: "re_here True (map Lit ''-Speed'') False (drop (length ds) r)"
    unfolding re_here_speed_lits using d(3) l len by simp
  have "length ds \<le> length (takeWhile is_digit r)"
    using d(2,3) run_covers_prefix by blast
  moreover have "1 \<le> length ds" using d(1) by (cases ds) auto
  ultimately show "re_here True speed_pattern b r"
    using m unfolding speed_pattern_def re_here_Plus by blast
qed

lemma re_search_from_Some:
  "re_search_from ic p i s = Some k \<longleftrightarrow>
     (\<exists>j\<le>length s. k = i + j \<and> re_here ic p (i + j = 0) (drop j s) \<and>
        (\<forall>j'<j. \<not> re_here ic p (i + j' = 0) (drop j' s)))"
proof (induction s arbitrary: i)
  case Nil
  then show ?case by auto
next
  case (Cons c cs)
  show ?case
  proof (cases "re_here ic p (i = 0) (c # cs)")
    case True
    have "(\<exists>j\<le>length (c # cs). k = i + j \<and> re_here ic p (i + j = 0) (drop j (c # cs)) \<and>
        (\<forall>j'<j. \<not> re_here ic p (i + j' = 0) (drop j' (c # cs)))) \<longleftrightarrow> k = i"
    proof
      assume "\<exists>j\<le>length (c # cs). k = i + j \<and> re_here ic p (i + j = 0) (drop j (c # cs)) \<and>
        (\<forall>j'<j. \<not> re_here ic p (i + j' = 0) (drop j' (c # cs)))"
      then obtain j where j: "k = i + j"
        "\<forall>j'<j. \<not> re_here ic p (i + j' = 0) (drop j' (c # cs))" by blast
      have "j = 0"
      proof (rule ccontr)
        assume "j \<noteq> 0"
        then have "0 < j" by simp
        with j(2) have "\<not> re_here ic p (i + 0 = 0) (drop 0 (c # cs))" by blast
        with True show False by simp
      qed
      with j(1) show "k = i" by simp
    next
      assume "k = i"
      with True show "\<exists>j\<le>length (c # cs). k = i + j \<and> re_here ic p (i + j = 0) (drop j (c # cs)) \<and>
        (\<forall>j'<j. \<not> re_here ic p (i + j' = 0) (drop j' (c # cs)))"
        by (intro exI[of _ 0]) simp
    qed
    moreover have "re_search_from ic p i (c # cs) = Some k \<longleftrightarrow> k = i"
      using True by auto
    ultimately show ?thesis by blast
  next
    case False
    have "re_search_from ic p i (c # cs) = Some k \<longleftrightarrow> re_search_from ic p (Suc i) cs = Some k"
      using False by simp
    also have "\<dots> \<longleftrightarrow> (\<exists>j\<le>length cs. k = Suc i + j \<and> re_here ic p (Suc i + j = 0) (drop j cs) \<and>
        (\<forall>j'<j. \<not> re_here ic p (Suc i + j' = 0) (drop j' cs)))"
      by (rule Cons.IH)
    also have "\<dots> \<longleftrightarrow> (\<exists>j\<le>length (c # cs). k = i + j \<and> re_here ic p (i + j = 0) (drop j (c # cs)) \<and>
        (\<forall>j'<j. \<not> re_here ic p (i + j' = 0) (drop j' (c # cs))))"
      (is "?L \<longleftrightarrow> ?R")
    proof
      assume ?L
      then obtain j where j: "j \<le> length cs" "k = Suc i + j"
        "re_here ic p (Suc i + j = 0) (drop j cs)"
        "\<forall>j'<j. \<not> re_here ic p (Suc i + j' = 0) (drop j' cs)" by blast
      have "\<forall>j'<Suc j. \<not> re_here ic p (i + j' = 0) (drop j' (c # cs))"
      proof (intro allI impI)
        fix j' assume "j' < Suc j"
        then show "\<not> re_here ic p (i + j' = 0) (drop j' (c # cs))"
          using False j(4) by (cases j') auto
      qed
      with j show ?R by (intro exI[of _ "Suc j"]) auto
    next
      assume ?R
      then obtain j where j: "j \<le> length (c # cs)" "k = i + j"
        "re_here ic p (i + j = 0) (drop j (c # cs))"
        "\<forall>j'<j. \<not> re_here ic p (i + j' = 0) (drop j' (c # cs))" by blast
      from j(3) False obtain m where m: "j = Suc m" by (cases j) auto
      have "\<forall>j'<m. \<not> re_here ic p (Suc i + j' = 0) (drop j' cs)"
      proof (intro allI impI)
        fix j' assume "j' < m"
        then have "Suc j' < j" using m by simp
        with j(4) have "\<not> re_here ic p (i + Suc j' = 0) (drop (Suc j') (c # cs))" by blast
        then show "\<not> re_here ic p (Suc i + j' = 0) (drop j' cs)" by simp
      qed
      with j m show ?L by (intro exI[of _ m]) auto
    qed
    finally show ?thesis .
  qed
qed

lemma speed_not_in_empty: "\<not> starts_with_speed []"
  by (auto simp: starts_with_speed_def)

lemma re_search_speed_Some:
  "re_search True speed_pattern s = Some k \<longleftrightarrow>
     starts_with_speed (drop k s) \<and> (\<forall>j<k. \<not> starts_with_speed (drop j s))"
proof -
  have "starts_with_speed (drop k s) \<Longrightarrow> k \<le> length s"
    using speed_not_in_empty by (cases "k \<le> length s") auto
  then show ?thesis
    unfolding re_search_def re_search_from_Some re_here_speed by auto
qed

lemma re_search_speed_None:
  "re_search True speed_pattern s = None \<longleftrightarrow> (\<forall>j. \<not> starts_with_speed (drop j s))"
proof
  assume n: "re_search True speed_pattern s = None"
  show "\<forall>j. \<not> starts_with_speed (drop j s)"
  proof (rule ccontr)
    assume "\<not> (\<forall>j. \<not> starts_with_speed (drop j s))"
    then have ex: "\<exists>j. starts_with_speed (drop j s)" by blast
    define k where "k = (LEAST j. starts_with_speed (drop j s))"
    have "starts_with_speed (drop k s)" unfolding k_def using ex by (rule LeastI_ex)
    moreover have "\<forall>j<k. \<not> starts_with_speed (drop j s)"
      unfolding k_def using not_less_Least by blast
    ultimately have "re_search True speed_pattern s = Some k"
      by (simp add: re_search_speed_Some)
    with n show False by simp
  qed
next
  assume a: "\<forall>j. \<not> starts_with_speed (drop j s)"
  show "re_search True speed_pattern s = None"
  proof (cases "re_search True speed_pattern s")
    case None then show ?thesis .
  next
    case (Some k)
    then have "starts_with_speed (drop k s)" by (simp add: re_search_speed_Some)
    with a show ?thesis by blast
  qed
qed


lemma cut_speed_at:
  "starts_with_speed (drop k r) \<Longrightarrow> \<forall>n<k. \<not> starts_with_speed (drop n r) \<Longrightarrow>
   cut_speed r = py_strip (take k r)"
  using re_search_speed_Some[of r k] by (simp add: cut_speed_def)

lemma cut_speed_none:
  "\<forall>n. \<not> starts_with_speed (drop n r) \<Longrightarrow> cut_speed r = py_strip r"
  using re_search_speed_None[of r] by (simp add: cut_speed_def)

text \<open>The first word of the variant is compared, in small letters, with nine words.\<close>

lemma starts_with_common_word_iff:
  "starts_with_common_word v \<longleftrightarrow>
     (\<exists>w ws. py_split v = w # ws \<and>
        py_lower w \<in> {''for'', ''with'', ''in'', ''at'', ''by'', ''from'', ''on'', ''and'', ''the''})"
  by (cases "py_split v") (auto simp: starts_with_common_word_def common_words_def)

text \<open>The three titles of the spec.\<close>

lemma variant_example_package:
  "extract_variant ''2003 BMW M3 Competition Package'' sample_config = ''Competition Package''"
  by code_simp

lemma variant_example_bare: "extract_variant ''2003 BMW M3'' sample_config = ''Standard''"
  by code_simp

lemma variant_example_speed: "extract_variant ''2003 BMW M3 6-Speed'' sample_config = ''Standard''"
  by code_simp

text \<open>
  Titles without the make or without the model, a speed token in small letters with text on
  both sides, and each of the nine words at the head of the remaining text, in any letter
  case; a word that only begins like one of them does not count.
\<close>

lemma variant_example_absent:
  "extract_variant ''1999 Porsche 911 Carrera'' sample_config = ''Standard'' \<and>
   extract_variant ''2003 BMW 330i ZHP'' sample_config = ''Standard''"
  by code_simp

lemma variant_example_cut:
  "extract_variant ''2003 bmw m3 CSL with Sunroof 6-speed Manual'' sample_config =
     ''CSL with Sunroof''"
  by code_simp

lemma variant_example_common_words:
  "list_all (\<lambda>w. extract_variant (''2003 BMW M3 '' @ w @ '' Sale'') sample_config = ''Standard'')
     [''for'', ''with'', ''in'', ''at'', ''by'', ''from'', ''on'', ''and'', ''the'',
      ''For'', ''WITH'', ''The'']"
  by code_simp

lemma variant_example_other_words:
  "extract_variant ''2003 BMW M3 Forged Wheels'' sample_config = ''Forged Wheels'' \<and>
   extract_variant ''2003 BMW M3 Individual for Sale'' sample_config = ''Individual for Sale'' \<and>
   extract_variant ''2003 BMW M3 of Note'' sample_config = ''of Note''"
  by code_simp

text \<open>
  C6. The title \<^verbatim>\<open>Gro\<ss>er Spa\<ss>: 2003 BMW M3 CSL\<close>, written here with its two sharp s as the
  characters U+00DF, holds the make \<^verbatim>\<open>BMW\<close>, the model \<^verbatim>\<open>M3\<close> and the text \<^verbatim>\<open>CSL\<close> after the
  model, and the variant derived from it is \<^verbatim>\<open>Standard\<close>, not \<^verbatim>\<open>CSL\<close>. The make is found in
  the upper-cased title, where each sharp s has become \<^verbatim>\<open>SS\<close>, at index 20; in the title itself
  the make starts at index 18, so the text taken after the make starts two characters late,
  at \<^verbatim>\<open>3 CSL\<close>, and the model is not found in it. Without the words before the year the same
  title gives \<^verbatim>\<open>CSL\<close>.
\<close>

theorem variant_lost_after_sharp_s:
  "sharp_s_title = ''Gro'' @ [CHR 0xDF] @ ''er Spa'' @ [CHR 0xDF] @ '': 2003 BMW M3 CSL'' \<and>
   py_upper sharp_s_title = ''GROSSER SPASS: 2003 BMW M3 CSL'' \<and>
   py_find (py_upper sharp_s_title) (py_upper (config_make sample_config)) = Some 20 \<and>
   py_find sharp_s_title (config_make sample_config) = Some 18 \<and>
   after_match sharp_s_title 20 (config_make sample_config) = ''3 CSL'' \<and>
   extract_variant sharp_s_title sample_config = ''Standard'' \<and>
   extract_variant ''2003 BMW M3 CSL'' sample_config = ''CSL''"
  by code_simp

end
